theory Spec2Isabelle
  imports Main
begin

section \<open>JavaScript values and errors\<close>

text \<open>
  The header object handed to the encoder is cast with \<^verbatim>\<open>as unknown as RpcBlockHeader\<close>,
  so its fields are modelled as runtime values, not as the strings the interface declares:
  a field is undefined, null, a string or a bigint. Strings are byte strings.
\<close>

datatype jsval = JUndefined | JNull | JString string | JBigInt int

text \<open>
  Every throw of the source is a value. The three classes of \<^verbatim>\<open>types.ts\<close> come first;
  \<open>TypeError\<close> and \<open>SyntaxError\<close> are the language's own, \<open>IntegerOutOfRangeError\<close>
  and \<open>SizeExceedsPaddingSizeError\<close> are thrown by the number formatter,
  \<open>PrimitiveError\<close> by the hashing and RLP primitives, and \<open>RpcError\<close> is a rejected
  request of the RPC collaborator with its message.
\<close>

datatype error =
    BlockHashMismatchError jsval string
  | StateRootMismatchError jsval string
  | RpcMethodNotAvailableError string
  | TypeError
  | SyntaxError
  | IntegerOutOfRangeError
  | SizeExceedsPaddingSizeError
  | PrimitiveError
  | RpcError string

definition bindE :: "error + 'a \<Rightarrow> ('a \<Rightarrow> error + 'b) \<Rightarrow> error + 'b" where
  "bindE r f = (case r of Inl e \<Rightarrow> Inl e | Inr x \<Rightarrow> f x)"

text \<open>Truthiness of a value in a condition: \<^verbatim>\<open>if (v)\<close>.\<close>

fun truthy :: "jsval \<Rightarrow> bool" where
  "truthy JUndefined = False"
| "truthy JNull = False"
| "truthy (JString s) = (s \<noteq> [])"
| "truthy (JBigInt n) = (n \<noteq> 0)"

section \<open>Numbers and hexadecimal text\<close>

definition hexchar :: "nat \<Rightarrow> char" where
  "hexchar d = (if d < 10 then char_of (48 + d) else char_of (87 + d))"

text \<open>The digits of \<^verbatim>\<open>n.toString(16)\<close> for a non-negative bigint.\<close>

function hex_digits :: "nat \<Rightarrow> string" where
  "hex_digits n = (if n < 16 then [hexchar n] else hex_digits (n div 16) @ [hexchar (n mod 16)])"
  by pat_completeness auto
termination
  by (relation "measure id") auto

declare hex_digits.simps [simp del]

definition toString16 :: "int \<Rightarrow> string" where
  "toString16 n = (if n < 0 then CHR ''-'' # hex_digits (nat (- n)) else hex_digits (nat n))"

definition digit_val :: "char \<Rightarrow> nat option" where
  "digit_val c =
     (let k = (of_char c :: nat) in
      if 48 \<le> k \<and> k \<le> 57 then Some (k - 48)
      else if 97 \<le> k \<and> k \<le> 102 then Some (k - 87)
      else if 65 \<le> k \<and> k \<le> 70 then Some (k - 55)
      else None)"

fun parse_digits :: "nat \<Rightarrow> string \<Rightarrow> nat \<Rightarrow> nat option" where
  "parse_digits b [] acc = Some acc"
| "parse_digits b (c # cs) acc =
     (case digit_val c of
        None \<Rightarrow> None
      | Some d \<Rightarrow> if d < b then parse_digits b cs (acc * b + d) else None)"

definition parse_nonempty :: "nat \<Rightarrow> string \<Rightarrow> nat option" where
  "parse_nonempty b cs = (if cs = [] then None else parse_digits b cs 0)"

definition is_ws :: "char \<Rightarrow> bool" where
  "is_ws c = (of_char c \<in> {9, 10, 11, 12, 13, 32 :: nat})"

definition trim :: "string \<Rightarrow> string" where
  "trim s = rev (dropWhile is_ws (rev (dropWhile is_ws s)))"

text \<open>
  \<^verbatim>\<open>BigInt(string)\<close>: surrounding white space is dropped (the ASCII white space here),
  the empty text is zero, a \<^verbatim>\<open>0x\<close>, \<^verbatim>\<open>0o\<close> or \<^verbatim>\<open>0b\<close> prefix selects the base and
  takes no sign, a decimal literal may carry one sign; anything else is a SyntaxError.
\<close>

definition StringToBigInt :: "string \<Rightarrow> int option" where
  "StringToBigInt s =
     (case trim s of
        [] \<Rightarrow> Some 0
      | c # cs \<Rightarrow>
          if c = CHR ''0'' \<and> cs \<noteq> [] \<and> (hd cs = CHR ''x'' \<or> hd cs = CHR ''X'')
            then map_option int (parse_nonempty 16 (tl cs))
          else if c = CHR ''0'' \<and> cs \<noteq> [] \<and> (hd cs = CHR ''o'' \<or> hd cs = CHR ''O'')
            then map_option int (parse_nonempty 8 (tl cs))
          else if c = CHR ''0'' \<and> cs \<noteq> [] \<and> (hd cs = CHR ''b'' \<or> hd cs = CHR ''B'')
            then map_option int (parse_nonempty 2 (tl cs))
          else if c = CHR ''-'' then map_option (\<lambda>n. - int n) (parse_nonempty 10 cs)
          else if c = CHR ''+'' then map_option int (parse_nonempty 10 cs)
          else map_option int (parse_nonempty 10 (c # cs)))"

fun BigInt :: "jsval \<Rightarrow> error + int" where
  "BigInt (JBigInt n) = Inr n"
| "BigInt (JString s) = (case StringToBigInt s of None \<Rightarrow> Inl SyntaxError | Some n \<Rightarrow> Inr n)"
| "BigInt JUndefined = Inl TypeError"
| "BigInt JNull = Inl TypeError"

section \<open>rlp-encoder.ts\<close>

text \<open>
  \<^verbatim>\<open>cleanHex\<close>: one leading \<^verbatim>\<open>0x\<close> is removed, an odd number of characters gets one
  \<^verbatim>\<open>0\<close> in front, and \<^verbatim>\<open>0x\<close> is put back. On anything but a string the call of
  \<^verbatim>\<open>replace\<close> throws a TypeError.
\<close>

definition strip0x :: "string \<Rightarrow> string" where
  "strip0x hex = (case hex of a # b # r \<Rightarrow> if a = CHR ''0'' \<and> b = CHR ''x'' then r else hex | _ \<Rightarrow> hex)"

fun cleanHex :: "jsval \<Rightarrow> error + string" where
  "cleanHex (JString hex) =
     (let clean = strip0x hex
      in Inr (''0x'' @ (if length clean mod 2 = 0 then clean else CHR ''0'' # clean)))"
| "cleanHex v = Inl TypeError"

definition encodeInt :: "jsval \<Rightarrow> error + string" where
  "encodeInt hex =
     (case BigInt hex of
        Inl e \<Rightarrow> Inl e
      | Inr v \<Rightarrow> if v = 0 then Inr ''0x'' else cleanHex (JString (toString16 v)))"

record RpcBlockHeader =
  hash :: jsval
  parentHash :: jsval
  sha3Uncles :: jsval
  miner :: jsval
  stateRoot :: jsval
  transactionsRoot :: jsval
  receiptsRoot :: jsval
  logsBloom :: jsval
  difficulty :: jsval
  number :: jsval
  gasLimit :: jsval
  gasUsed :: jsval
  timestamp :: jsval
  extraData :: jsval
  mixHash :: jsval
  nonce :: jsval
  baseFeePerGas :: jsval
  withdrawalsRoot :: jsval
  blobGasUsed :: jsval
  excessBlobGas :: jsval
  parentBeaconBlockRoot :: jsval
  requestsHash :: jsval
  sendRoot :: "jsval option"

text \<open>
  An absent property reads as undefined, so an absent optional field is \<open>JUndefined\<close>.
  Only \<open>sendRoot\<close> is tested with \<^verbatim>\<open>in\<close>, so only there absence (\<open>None\<close>) is kept apart
  from a property that is present and holds undefined.
\<close>

text \<open>The elements of an array literal are evaluated in order; the first throw wins.\<close>

fun sequenceE :: "(error + 'a) list \<Rightarrow> error + 'a list" where
  "sequenceE [] = Inr []"
| "sequenceE (r # rs) =
     (case r of
        Inl e \<Rightarrow> Inl e
      | Inr x \<Rightarrow> (case sequenceE rs of Inl e \<Rightarrow> Inl e | Inr xs \<Rightarrow> Inr (x # xs)))"

definition baseFields :: "RpcBlockHeader \<Rightarrow> error + string list" where
  "baseFields rpcBlock = sequenceE
     [cleanHex (parentHash rpcBlock),
      cleanHex (sha3Uncles rpcBlock),
      cleanHex (miner rpcBlock),
      cleanHex (stateRoot rpcBlock),
      cleanHex (transactionsRoot rpcBlock),
      cleanHex (receiptsRoot rpcBlock),
      cleanHex (logsBloom rpcBlock),
      encodeInt (difficulty rpcBlock),
      encodeInt (number rpcBlock),
      encodeInt (gasLimit rpcBlock),
      encodeInt (gasUsed rpcBlock),
      encodeInt (timestamp rpcBlock),
      cleanHex (extraData rpcBlock),
      cleanHex (mixHash rpcBlock),
      cleanHex (nonce rpcBlock)]"

text \<open>\<^verbatim>\<open>if (c) headerFields.push(item)\<close>: the item is evaluated only when the test holds.\<close>

definition pushIf :: "bool \<Rightarrow> (error + string) \<Rightarrow> string list \<Rightarrow> error + string list" where
  "pushIf c item fs = (if c then bindE item (\<lambda>x. Inr (fs @ [x])) else Inr fs)"

text \<open>The local \<^verbatim>\<open>headerFields\<close> of \<^verbatim>\<open>encodeBlockHeaderToRlp\<close>, as it stands before \<^verbatim>\<open>toRlp\<close>.\<close>

definition headerFields :: "RpcBlockHeader \<Rightarrow> error + string list" where
  "headerFields rpcBlock =
     bindE (baseFields rpcBlock) (\<lambda>f0.
     bindE (pushIf (truthy (baseFeePerGas rpcBlock)) (encodeInt (baseFeePerGas rpcBlock)) f0) (\<lambda>f1.
     bindE (pushIf (truthy (withdrawalsRoot rpcBlock)) (cleanHex (withdrawalsRoot rpcBlock)) f1) (\<lambda>f2.
     bindE (pushIf (truthy (blobGasUsed rpcBlock)) (encodeInt (blobGasUsed rpcBlock)) f2) (\<lambda>f3.
     bindE (pushIf (excessBlobGas rpcBlock \<noteq> JUndefined) (encodeInt (excessBlobGas rpcBlock)) f3) (\<lambda>f4.
     bindE (pushIf (truthy (parentBeaconBlockRoot rpcBlock)) (cleanHex (parentBeaconBlockRoot rpcBlock)) f4) (\<lambda>f5.
     pushIf (truthy (requestsHash rpcBlock)) (cleanHex (requestsHash rpcBlock)) f5))))))"

section \<open>The library's formatting and the trusted primitives\<close>

text \<open>
  \<^verbatim>\<open>toHex\<close> of the client library, for the arguments the source gives it. A bigint is
  written as \<^verbatim>\<open>0x\<close> and its hexadecimal digits, not padded to full bytes; a negative
  value, or one that does not fit the requested size, is out of range. With a size the
  digits are padded on the left to twice that many (the text padded always starts with
  \<^verbatim>\<open>0x\<close>, which is taken off first). A string is written as the hexadecimal of its bytes,
  and undefined or null has no length to read: a TypeError.
\<close>

definition pad :: "nat \<Rightarrow> string \<Rightarrow> error + string" where
  "pad sz hexIn =
     (let hex = strip0x hexIn
      in if length hex > sz * 2 then Inl SizeExceedsPaddingSizeError
         else Inr (''0x'' @ replicate (sz * 2 - length hex) CHR ''0'' @ hex))"

definition numberToHex :: "nat option \<Rightarrow> int \<Rightarrow> error + string" where
  "numberToHex sz v =
     (let maxValue = (case sz of None \<Rightarrow> 0 | Some k \<Rightarrow> 2 ^ (k * 8) - 1)
      in if (maxValue \<noteq> 0 \<and> v > maxValue) \<or> v < 0 then Inl IntegerOutOfRangeError
         else (case sz of
                 None \<Rightarrow> Inr (''0x'' @ toString16 v)
               | Some k \<Rightarrow> if k \<noteq> 0 then pad k (''0x'' @ toString16 v)
                          else Inr (''0x'' @ toString16 v)))"

definition byte_hex :: "char \<Rightarrow> string" where
  "byte_hex c = [hexchar (of_char c div 16), hexchar (of_char c mod 16)]"

definition stringToHex :: "string \<Rightarrow> string" where
  "stringToHex s = ''0x'' @ concat (map byte_hex s)"

fun toHex :: "jsval \<Rightarrow> error + string" where
  "toHex (JBigInt n) = numberToHex None n"
| "toHex (JString s) = Inr (stringToHex s)"
| "toHex JUndefined = Inl TypeError"
| "toHex JNull = Inl TypeError"

text \<open>
  Keccak-256 and the RLP encoding of a list of byte strings are primitives of the
  library, trusted and not modelled: every definition below takes them as a parameter,
  so every theorem holds for whatever they compute. \<open>None\<close> is a throw of the primitive.
\<close>

record prims =
  prim_keccak256 :: "string \<Rightarrow> string option"
  prim_toRlp :: "string list \<Rightarrow> string option"

fun keccak256 :: "prims \<Rightarrow> jsval \<Rightarrow> error + string" where
  "keccak256 P (JString s) =
     (case prim_keccak256 P s of None \<Rightarrow> Inl PrimitiveError | Some d \<Rightarrow> Inr d)"
| "keccak256 P v = Inl PrimitiveError"

definition toRlp :: "prims \<Rightarrow> string list \<Rightarrow> error + string" where
  "toRlp P xs = (case prim_toRlp P xs of None \<Rightarrow> Inl PrimitiveError | Some r \<Rightarrow> Inr r)"

definition encodeBlockHeaderToRlp :: "prims \<Rightarrow> RpcBlockHeader \<Rightarrow> error + string" where
  "encodeBlockHeaderToRlp P rpcBlock = bindE (headerFields rpcBlock) (toRlp P)"

section \<open>The RPC collaborator\<close>

text \<open>
  Of the answer to \<^verbatim>\<open>eth_getProof\<close> only what the source reads is kept: the account
  proof, and of each storage proof its key, its nodes and its value (a bigint).
\<close>

record storage_entry =
  sp_key :: string
  sp_proof :: "string list"
  sp_value :: int

record proof_response =
  accountProof :: "string list"
  storageProof :: "storage_entry list"

text \<open>
  A client answers each request with a result or rejects it with a message. The client
  of an endpoint is what the network gives for its URL; the requests a call sends are
  recorded in the order they are sent.
\<close>

record client =
  getBlock :: "int \<Rightarrow> string + RpcBlockHeader"
  debug_getRawHeader :: "string \<Rightarrow> string + string"
  getProof :: "string \<Rightarrow> string list \<Rightarrow> int \<Rightarrow> string + proof_response"

type_synonym network = "string \<Rightarrow> client"

datatype rpc_call =
    CallGetBlock int
  | CallDebugGetRawHeader string
  | CallGetProof string "string list" int

section \<open>proof-generator.ts\<close>

datatype method_used = Method_debug_getRawHeader | Method_manual

text \<open>
  \<^verbatim>\<open>getRlpBlockHeader\<close>: the \<^verbatim>\<open>try\<close> block holds both the formatting of the block number
  and the request; the \<^verbatim>\<open>catch\<close> has no binding, and the encoder runs inside it, so a
  throw of the encoder leaves the function.
\<close>

definition getRlpBlockHeader ::
  "prims \<Rightarrow> client \<Rightarrow> int \<Rightarrow> RpcBlockHeader \<Rightarrow> (error + string \<times> method_used) \<times> rpc_call list" where
  "getRlpBlockHeader P c blockNumber blockHeader =
     (let fallback = bindE (encodeBlockHeaderToRlp P blockHeader) (\<lambda>rlpHeader. Inr (rlpHeader, Method_manual))
      in case toHex (JBigInt blockNumber) of
           Inl e \<Rightarrow> (fallback, [])
         | Inr p \<Rightarrow>
             (case debug_getRawHeader c p of
                Inr rawHeader \<Rightarrow> (Inr (rawHeader, Method_debug_getRawHeader), [CallDebugGetRawHeader p])
              | Inl m \<Rightarrow> (fallback, [CallDebugGetRawHeader p])))"

text \<open>\<^verbatim>\<open>xs[0]\<close> reads undefined from an empty array.\<close>

definition index0 :: "string list \<Rightarrow> jsval" where
  "index0 xs = (case xs of [] \<Rightarrow> JUndefined | x # r \<Rightarrow> JString x)"

text \<open>
  \<^verbatim>\<open>getStorageAndAccountProof\<close>; the result is the tuple (computedStateRoot,
  rlpAccountProof, rlpStorageProof, slotValue), its members evaluated in the order of
  the object literal. Reading \<^verbatim>\<open>.proof\<close> of a missing first storage proof is a TypeError.
\<close>

definition getStorageAndAccountProof ::
  "prims \<Rightarrow> client \<Rightarrow> string \<Rightarrow> int \<Rightarrow> int \<Rightarrow> (error + string \<times> string \<times> string \<times> string) \<times> rpc_call list" where
  "getStorageAndAccountProof P c account slot blockNumber =
     (case numberToHex (Some 32) slot of
        Inl e \<Rightarrow> (Inl e, [])
      | Inr k \<Rightarrow>
          (case getProof c account [k] blockNumber of
             Inl m \<Rightarrow> (Inl (RpcError m), [CallGetProof account [k] blockNumber])
           | Inr resp \<Rightarrow>
               (bindE (keccak256 P (index0 (accountProof resp))) (\<lambda>computedStateRoot.
                bindE (toRlp P (accountProof resp)) (\<lambda>rlpAccountProof.
                  case storageProof resp of
                    [] \<Rightarrow> Inl TypeError
                  | s0 # rest \<Rightarrow>
                      bindE (toRlp P (sp_proof s0)) (\<lambda>rlpStorageProof.
                      bindE (toHex (JBigInt (sp_value s0))) (\<lambda>slotValue.
                        Inr (computedStateRoot, rlpAccountProof, rlpStorageProof, slotValue))))),
                [CallGetProof account [k] blockNumber])))"

record ProofGeneratorOptions =
  o_rpc :: string
  o_account :: string
  o_slot :: int
  o_blockNumber :: int

record StorageProof =
  p_blockNumber :: string
  p_blockHash :: jsval
  p_stateRoot :: jsval
  p_account :: string
  p_slot :: string
  p_slotValue :: string
  p_rlpBlockHeader :: string
  p_rlpAccountProof :: string
  p_rlpStorageProof :: string
  p_sendRoot :: "jsval option"

text \<open>\<^verbatim>\<open>'sendRoot' in blockHeader && blockHeader.sendRoot\<close>, and the value then copied.\<close>

definition copySendRoot :: "RpcBlockHeader \<Rightarrow> jsval option" where
  "copySendRoot blockHeader =
     (case sendRoot blockHeader of
        None \<Rightarrow> None
      | Some v \<Rightarrow> if truthy v then Some v else None)"

definition generateStorageProof ::
  "prims \<Rightarrow> network \<Rightarrow> ProofGeneratorOptions \<Rightarrow> (error + StorageProof) \<times> rpc_call list" where
  "generateStorageProof P net options =
     (let c = net (o_rpc options);
          account = o_account options;
          slot = o_slot options;
          blockNumber = o_blockNumber options;
          t0 = [CallGetBlock blockNumber]
      in case getBlock c blockNumber of
           Inl m \<Rightarrow> (Inl (RpcError m), t0)
         | Inr blockHeader \<Rightarrow>
       (case getRlpBlockHeader P c blockNumber blockHeader of
           (Inl e, t1) \<Rightarrow> (Inl e, t0 @ t1)
         | (Inr (rlpBlockHeader, m), t1) \<Rightarrow>
       (case keccak256 P (JString rlpBlockHeader) of
           Inl e \<Rightarrow> (Inl e, t0 @ t1)
         | Inr computedBlockHash \<Rightarrow>
       if JString computedBlockHash \<noteq> hash blockHeader
       then (Inl (BlockHashMismatchError (hash blockHeader) computedBlockHash), t0 @ t1)
       else
       (case getStorageAndAccountProof P c account slot blockNumber of
           (Inl e, t2) \<Rightarrow> (Inl e, t0 @ t1 @ t2)
         | (Inr (computedStateRoot, rlpAccountProof, rlpStorageProof, slotValue), t2) \<Rightarrow>
       if JString computedStateRoot \<noteq> stateRoot blockHeader
       then (Inl (StateRootMismatchError (stateRoot blockHeader) computedStateRoot), t0 @ t1 @ t2)
       else
         (bindE (toHex (number blockHeader)) (\<lambda>bn.
          bindE (numberToHex (Some 32) slot) (\<lambda>sl.
            Inr \<lparr>p_blockNumber = bn,
                 p_blockHash = hash blockHeader,
                 p_stateRoot = stateRoot blockHeader,
                 p_account = account,
                 p_slot = sl,
                 p_slotValue = slotValue,
                 p_rlpBlockHeader = rlpBlockHeader,
                 p_rlpAccountProof = rlpAccountProof,
                 p_rlpStorageProof = rlpStorageProof,
                 p_sendRoot = copySendRoot blockHeader\<rparr>)),
          t0 @ t1 @ t2)))))"

section \<open>Reading hexadecimal text as bytes\<close>

text \<open>
  What an emitted item denotes: the bytes written by the pairs of hexadecimal digits
  after \<^verbatim>\<open>0x\<close>, and the number they are in big-endian order.
\<close>

fun pairs :: "string \<Rightarrow> nat list option" where
  "pairs [] = Some []"
| "pairs [c] = None"
| "pairs (a # b # r) =
     (case (digit_val a, digit_val b, pairs r) of
        (Some x, Some y, Some bs) \<Rightarrow> Some ((16 * x + y) # bs)
      | _ \<Rightarrow> None)"

definition hex_bytes :: "string \<Rightarrow> nat list option" where
  "hex_bytes h =
     (case h of
        a # b # r \<Rightarrow> if a = CHR ''0'' \<and> b = CHR ''x'' then pairs r else None
      | _ \<Rightarrow> None)"

definition be_value :: "nat list \<Rightarrow> nat" where
  "be_value bs = foldl (\<lambda>a b. a * 256 + b) 0 bs"

definition no_leading_zero :: "nat list \<Rightarrow> bool" where
  "no_leading_zero bs = (case bs of [] \<Rightarrow> True | b # r \<Rightarrow> b \<noteq> 0)"

definition lower_hex :: "char \<Rightarrow> bool" where
  "lower_hex c = (let k = (of_char c :: nat) in (48 \<le> k \<and> k \<le> 57) \<or> (97 \<le> k \<and> k \<le> 102))"

definition digits_value :: "nat \<Rightarrow> string \<Rightarrow> nat" where
  "digits_value acc ds = foldl (\<lambda>a c. a * 16 + the (digit_val c)) acc ds"

section \<open>Notions of the specification\<close>

text \<open>
  Canonical hexadecimal text: \<^verbatim>\<open>0x\<close>, then lower-case hexadecimal digits, an even number
  of them. Without the condition on the number of digits it is lower-case hexadecimal.
\<close>

definition lowercase_hex :: "string \<Rightarrow> bool" where
  "lowercase_hex h =
     (case h of
        a # b # r \<Rightarrow> a = CHR ''0'' \<and> b = CHR ''x'' \<and> list_all lower_hex r
      | _ \<Rightarrow> False)"

definition canonical_hex :: "string \<Rightarrow> bool" where
  "canonical_hex h = (lowercase_hex h \<and> even (length h))"

fun canonical_value :: "jsval \<Rightarrow> bool" where
  "canonical_value (JString s) = canonical_hex s"
| "canonical_value v = False"


text \<open>The primitives write canonical hexadecimal, as the library's do.\<close>

definition prims_canonical :: "prims \<Rightarrow> bool" where
  "prims_canonical P =
     ((\<forall>s d. prim_keccak256 P s = Some d \<longrightarrow> canonical_hex d) \<and>
      (\<forall>xs r. prim_toRlp P xs = Some r \<longrightarrow> canonical_hex r))"

text \<open>What the encoder returns in the fallback of the header resolver, tagged.\<close>

definition manualHeader :: "prims \<Rightarrow> RpcBlockHeader \<Rightarrow> error + string \<times> method_used" where
  "manualHeader P blockHeader =
     (case encodeBlockHeaderToRlp P blockHeader of
        Inl e \<Rightarrow> Inl e
      | Inr rlpHeader \<Rightarrow> Inr (rlpHeader, Method_manual))"

section \<open>An example chain\<close>

text \<open>
  A chain with one account, whose storage holds 1 in slot 0, and a block above it with
  the header layout of the blob-data upgrade. The state root is the Keccak-256 digest of
  the one node of the account trie, and the block hash is the digest of the canonical
  RLP encoding of the twenty header fields. The header is in the form the client library
  hands to the caller: quantities are bigints, hashes are strings. The block carries no
  blobs: its \<open>blobGasUsed\<close> and \<open>excessBlobGas\<close> are zero.
\<close>

definition example_account :: "string" where
  "example_account = ''0x5FbDB2315678afecb367f032d93F642f64180aa3''"

definition example_anode :: "string" where
  "example_anode = ''0xf86aa12044e659e60b21cc961f64ad47f20523c1d329d4bbda245ef3940a76dc89d0911bb846f8440180a0821e2556a290c86405f8160a2d662042a431ba456b9db265c79bb837c04be5f0a0bc36789e7a1e281436464229828f817d6612f7b477d66591ff96a9e064bcc98a''"

definition example_snode :: "string" where
  "example_snode = ''0xe3a120290decd9548b62a8d60345a988386fc84ba6bc95484008f6362f93160ef3e56301''"

definition example_stateRoot :: "string" where
  "example_stateRoot = ''0x3c8c7ce67150045a43d9ca5ba850ec6d0e57dfa0ae657ec26524470d7b145a6e''"

definition example_storageRoot :: "string" where
  "example_storageRoot = ''0x821e2556a290c86405f8160a2d662042a431ba456b9db265c79bb837c04be5f0''"

definition example_hash :: "string" where
  "example_hash = ''0xb8a03e45a7c92278b47b27fe71293b2c31aebb7d710a4a99db1eecaaec0f7847''"

definition example_header :: "RpcBlockHeader" where
  "example_header = \<lparr>hash = JString example_hash,
      parentHash = JString ''0xff483e972a04a9a62bb4b7d04ae403c615604e4090521ecc5bb7af67f71be09c'',
      sha3Uncles = JString ''0x1dcc4de8dec75d7aab85b567b6ccd41ad312451b948a7413f0a142fd40d49347'',
      miner = JString ''0x95222290dd7278aa3ddd389cc1e1d165cc4bafe5'',
      stateRoot = JString example_stateRoot,
      transactionsRoot = JString ''0x56e81f171bcc55a6ff8345e692c0f86e5b48e01b996cadc001622fb5e363b421'',
      receiptsRoot = JString ''0x56e81f171bcc55a6ff8345e692c0f86e5b48e01b996cadc001622fb5e363b421'',
      logsBloom = JString (''0x'' @ replicate 512 CHR ''0''),
      difficulty = JBigInt 0,
      number = JBigInt 19426587,
      gasLimit = JBigInt 30000000,
      gasUsed = JBigInt 0,
      timestamp = JBigInt 1710338135,
      extraData = JString ''0x'',
      mixHash = JString ''0xae8df219bf308945ea5dfc66cefa89433ee04132e9e17361a03ae901cf9a547c'',
      nonce = JString ''0x0000000000000000'',
      baseFeePerGas = JBigInt 7,
      withdrawalsRoot = JString ''0x56e81f171bcc55a6ff8345e692c0f86e5b48e01b996cadc001622fb5e363b421'',
      blobGasUsed = JBigInt 0,
      excessBlobGas = JBigInt 0,
      parentBeaconBlockRoot = JString ''0xff009f228d26ce2afcaca65d94a08d506400415ecfa8dacebf425a25d453485b'',
      requestsHash = JUndefined,
      sendRoot = None\<rparr>"

text \<open>
  The canonical encoding of the header (twenty items, \<open>blobGasUsed\<close> among them as the
  empty string), which hashes to \<open>example_hash\<close>.
\<close>

definition example_rlp :: "string" where
  "example_rlp = (''0xf9023ea0ff483e972a04a9a62bb4b7d04ae403c615604e4090521ecc5bb7af67f71be09ca01dcc4de8dec75d7aab85b567b6ccd41ad312451b948a7413f0a142fd40d493479495222290dd7278aa3ddd389cc1e1d165cc4bafe5a03c8c7ce67150045a43d9ca5ba850ec6d0e57dfa0ae657ec26524470d7b145a6ea056e81f171bcc55a6ff8345e692c0f86e5b48e01b996cadc001622fb5e363b421a056e81f171bcc55a6ff8345e692c0f86e5b48e01b996cadc001622fb5e363b421b901'' @ replicate 512 CHR ''0'' @ ''00808401286d1b8401c9c380808465f1b05780a0ae8df219bf308945ea5dfc66cefa89433ee04132e9e17361a03ae901cf9a547c88000000000000000007a056e81f171bcc55a6ff8345e692c0f86e5b48e01b996cadc001622fb5e363b4218080a0ff009f228d26ce2afcaca65d94a08d506400415ecfa8dacebf425a25d453485b'')"

text \<open>The twenty items of the canonical encoding, and the nineteen without the seventeenth.\<close>

definition example_fields_full :: "string list" where
  "example_fields_full = [''0xff483e972a04a9a62bb4b7d04ae403c615604e4090521ecc5bb7af67f71be09c'',
     ''0x1dcc4de8dec75d7aab85b567b6ccd41ad312451b948a7413f0a142fd40d49347'',
     ''0x95222290dd7278aa3ddd389cc1e1d165cc4bafe5'',
     example_stateRoot,
     ''0x56e81f171bcc55a6ff8345e692c0f86e5b48e01b996cadc001622fb5e363b421'',
     ''0x56e81f171bcc55a6ff8345e692c0f86e5b48e01b996cadc001622fb5e363b421'',
     (''0x'' @ replicate 512 CHR ''0''),
     ''0x'',
     ''0x01286d1b'',
     ''0x01c9c380'',
     ''0x'',
     ''0x65f1b057'',
     ''0x'',
     ''0xae8df219bf308945ea5dfc66cefa89433ee04132e9e17361a03ae901cf9a547c'',
     ''0x0000000000000000'',
     ''0x07'',
     ''0x56e81f171bcc55a6ff8345e692c0f86e5b48e01b996cadc001622fb5e363b421'',
     ''0x'',
     ''0x'',
     ''0xff009f228d26ce2afcaca65d94a08d506400415ecfa8dacebf425a25d453485b'']"

definition example_fields_emitted :: "string list" where
  "example_fields_emitted = [''0xff483e972a04a9a62bb4b7d04ae403c615604e4090521ecc5bb7af67f71be09c'',
     ''0x1dcc4de8dec75d7aab85b567b6ccd41ad312451b948a7413f0a142fd40d49347'',
     ''0x95222290dd7278aa3ddd389cc1e1d165cc4bafe5'',
     example_stateRoot,
     ''0x56e81f171bcc55a6ff8345e692c0f86e5b48e01b996cadc001622fb5e363b421'',
     ''0x56e81f171bcc55a6ff8345e692c0f86e5b48e01b996cadc001622fb5e363b421'',
     (''0x'' @ replicate 512 CHR ''0''),
     ''0x'',
     ''0x01286d1b'',
     ''0x01c9c380'',
     ''0x'',
     ''0x65f1b057'',
     ''0x'',
     ''0xae8df219bf308945ea5dfc66cefa89433ee04132e9e17361a03ae901cf9a547c'',
     ''0x0000000000000000'',
     ''0x07'',
     ''0x56e81f171bcc55a6ff8345e692c0f86e5b48e01b996cadc001622fb5e363b421'',
     ''0x'',
     ''0xff009f228d26ce2afcaca65d94a08d506400415ecfa8dacebf425a25d453485b'']"

definition example_rlp_emitted :: "string" where
  "example_rlp_emitted = (''0xf9023da0ff483e972a04a9a62bb4b7d04ae403c615604e4090521ecc5bb7af67f71be09ca01dcc4de8dec75d7aab85b567b6ccd41ad312451b948a7413f0a142fd40d493479495222290dd7278aa3ddd389cc1e1d165cc4bafe5a03c8c7ce67150045a43d9ca5ba850ec6d0e57dfa0ae657ec26524470d7b145a6ea056e81f171bcc55a6ff8345e692c0f86e5b48e01b996cadc001622fb5e363b421a056e81f171bcc55a6ff8345e692c0f86e5b48e01b996cadc001622fb5e363b421b901'' @ replicate 512 CHR ''0'' @ ''00808401286d1b8401c9c380808465f1b05780a0ae8df219bf308945ea5dfc66cefa89433ee04132e9e17361a03ae901cf9a547c88000000000000000007a056e81f171bcc55a6ff8345e692c0f86e5b48e01b996cadc001622fb5e363b42180a0ff009f228d26ce2afcaca65d94a08d506400415ecfa8dacebf425a25d453485b'')"

definition example_hash_emitted :: "string" where
  "example_hash_emitted = ''0xdf8bcb57965f6432908df1fd88e423405f659bab6f238bea97ff036987a9ecf5''"

definition example_rlpAccountProof :: "string" where
  "example_rlpAccountProof = ''0xf86eb86cf86aa12044e659e60b21cc961f64ad47f20523c1d329d4bbda245ef3940a76dc89d0911bb846f8440180a0821e2556a290c86405f8160a2d662042a431ba456b9db265c79bb837c04be5f0a0bc36789e7a1e281436464229828f817d6612f7b477d66591ff96a9e064bcc98a''"

definition example_rlpStorageProof :: "string" where
  "example_rlpStorageProof = ''0xe5a4e3a120290decd9548b62a8d60345a988386fc84ba6bc95484008f6362f93160ef3e56301''"

text \<open>
  The part of the two primitives that the example needs: the true Keccak-256 digests of
  the four byte strings and the true RLP encodings of the three lists. Outside it the
  stand-in throws.
\<close>

definition example_prims :: "prims" where
  "example_prims = \<lparr>prim_keccak256 = map_of
        [(example_rlp, example_hash),
         (example_rlp_emitted, example_hash_emitted),
         (example_anode, example_stateRoot),
         (example_snode, example_storageRoot)],
      prim_toRlp = map_of
        [(example_fields_emitted, example_rlp_emitted),
         ([example_anode], example_rlpAccountProof),
         ([example_snode], example_rlpStorageProof)]\<rparr>"

definition example_slot_key :: "string" where
  "example_slot_key = ''0x'' @ replicate 64 CHR ''0''"

definition example_proof :: "proof_response" where
  "example_proof = \<lparr>accountProof = [example_anode],
      storageProof = [\<lparr>sp_key = example_slot_key, sp_proof = [example_snode], sp_value = 1\<rparr>]\<rparr>"

text \<open>
  Three endpoints of the same chain: the first answers \<^verbatim>\<open>debug_getRawHeader\<close> with the
  canonical encoding, the second does not know the method, and the third answers the
  proof request with a proof whose first node is not the root of the account trie.
\<close>

definition example_client :: "client" where
  "example_client = \<lparr>getBlock = (\<lambda>n. if n = 19426587 then Inr example_header else Inl ''block not found''),
      debug_getRawHeader = (\<lambda>p. if p = ''0x1286d1b'' then Inr example_rlp else Inl ''header not found''),
      getProof = (\<lambda>a ks n.
        if a = example_account \<and> ks = [example_slot_key] \<and> n = 19426587 then Inr example_proof
        else Inl ''proof not available'')\<rparr>"

definition example_client_manual :: "client" where
  "example_client_manual = example_client\<lparr>debug_getRawHeader := (\<lambda>p. Inl ''the method debug_getRawHeader does not exist'')\<rparr>"

definition example_client_stale :: "client" where
  "example_client_stale = example_client\<lparr>getProof := (\<lambda>a ks n. Inr (example_proof\<lparr>accountProof := [example_snode]\<rparr>))\<rparr>"


definition example_net :: "network" where
  "example_net = (\<lambda>url. if url = ''https://rpc.example.com'' then example_client
           else if url = ''https://stale.example.com'' then example_client_stale
           else example_client_manual)"

definition example_options :: "ProofGeneratorOptions" where
  "example_options = \<lparr>o_rpc = ''https://rpc.example.com'', o_account = example_account, o_slot = 0, o_blockNumber = 19426587\<rparr>"

definition example_options_manual :: "ProofGeneratorOptions" where
  "example_options_manual = example_options\<lparr>o_rpc := ''https://other.example.com''\<rparr>"

definition example_options_stale :: "ProofGeneratorOptions" where
  "example_options_stale = example_options\<lparr>o_rpc := ''https://stale.example.com''\<rparr>"

text \<open>What the first endpoint's call returns, and what the call sends.\<close>

definition example_result :: "StorageProof" where
  "example_result = \<lparr>p_blockNumber = ''0x1286d1b'',
      p_blockHash = JString example_hash,
      p_stateRoot = JString example_stateRoot,
      p_account = example_account,
      p_slot = example_slot_key,
      p_slotValue = ''0x1'',
      p_rlpBlockHeader = example_rlp,
      p_rlpAccountProof = example_rlpAccountProof,
      p_rlpStorageProof = example_rlpStorageProof,
      p_sendRoot = None\<rparr>"

definition example_trace :: "rpc_call list" where
  "example_trace = [CallGetBlock 19426587,
      CallDebugGetRawHeader ''0x1286d1b'',
      CallGetProof example_account [example_slot_key] 19426587]"

text \<open>
  The same chain behind a node that adds a \<^verbatim>\<open>sendRoot\<close> property to the header it
  returns, holding the given value.
\<close>

definition example_net_sendRoot :: "jsval \<Rightarrow> network" where
  "example_net_sendRoot = (\<lambda>v url. example_client\<lparr>getBlock := (\<lambda>n. Inr (example_header\<lparr>sendRoot := Some v\<rparr>))\<rparr>)"

section \<open>Hexadecimal digits\<close>

lemma digit_val_hexchar: "d < 16 \<Longrightarrow> digit_val (hexchar d) = Some d"
  by (auto simp: digit_val_def hexchar_def Let_def)

lemma lower_hex_hexchar: "d < 16 \<Longrightarrow> lower_hex (hexchar d)"
  by (auto simp: lower_hex_def hexchar_def Let_def)

lemma digit_val_zero: "digit_val CHR ''0'' = Some 0"
  by (simp add: digit_val_def)

lemma hexchar_0: "hexchar 0 = CHR ''0''"
proof -
  have "(of_char (hexchar 0) :: nat) = of_char CHR ''0''" by (simp add: hexchar_def)
  then show ?thesis by (simp only: of_char_eq_iff)
qed

lemma hexchar_eq_zero: "d < 16 \<Longrightarrow> hexchar d = CHR ''0'' \<longleftrightarrow> d = 0"
  using digit_val_hexchar [of d] digit_val_zero hexchar_0 by auto

lemma lower_hex_not_x: "lower_hex c \<Longrightarrow> c \<noteq> CHR ''x''"
  by (auto simp: lower_hex_def Let_def)

lemma lower_hex_digit_val: "lower_hex c \<Longrightarrow> \<exists>d. digit_val c = Some d \<and> d < 16"
  by (auto simp: lower_hex_def digit_val_def Let_def)

lemma hex_digits_lower: "list_all lower_hex (hex_digits n)"
proof (induction n rule: hex_digits.induct)
  case (1 n)
  show ?case
  proof (cases "n < 16")
    case True
    then show ?thesis by (subst hex_digits.simps) (simp add: lower_hex_hexchar)
  next
    case False
    with 1 show ?thesis by (subst hex_digits.simps) (simp add: lower_hex_hexchar)
  qed
qed

lemma hex_digits_value: "digits_value 0 (hex_digits n) = n"
proof (induction n rule: hex_digits.induct)
  case (1 n)
  show ?case
  proof (cases "n < 16")
    case True
    then show ?thesis
      by (subst hex_digits.simps) (simp add: digits_value_def digit_val_hexchar)
  next
    case False
    with 1 have "digits_value 0 (hex_digits (n div 16)) = n div 16" by simp
    with False show ?thesis
      by (subst hex_digits.simps) (simp add: digits_value_def digit_val_hexchar)
  qed
qed

lemma hex_digits_head:
  "0 < n \<Longrightarrow> \<exists>d r. hex_digits n = hexchar d # r \<and> 0 < d \<and> d < 16"
proof (induction n rule: hex_digits.induct)
  case (1 n)
  show ?case
  proof (cases "n < 16")
    case True
    with "1.prems" show ?thesis by (subst hex_digits.simps) auto
  next
    case False
    then have "0 < n div 16" by simp
    with 1 False obtain d r where "hex_digits (n div 16) = hexchar d # r" "0 < d" "d < 16"
      by blast
    with False show ?thesis by (subst hex_digits.simps) auto
  qed
qed

lemma strip0x_lower: "list_all lower_hex ds \<Longrightarrow> strip0x ds = ds"
  by (auto simp: strip0x_def split: list.splits dest: lower_hex_not_x)

lemma pairs_value:
  "list_all lower_hex ds \<Longrightarrow> even (length ds) \<Longrightarrow>
     \<exists>bs. pairs ds = Some bs \<and> (\<forall>acc. foldl (\<lambda>a b. a * 256 + b) acc bs = digits_value acc ds)"
proof (induction ds rule: pairs.induct)
  case 1
  then show ?case by (simp add: digits_value_def)
next
  case (2 c)
  then show ?case by simp
next
  case (3 a b r)
  then obtain bs where bs: "pairs r = Some bs"
      "\<forall>acc. foldl (\<lambda>a b. a * 256 + b) acc bs = digits_value acc r" by auto
  from 3 obtain x y where xy: "digit_val a = Some x" "digit_val b = Some y"
    using lower_hex_digit_val by (metis list.pred_inject(2))
  show ?case using bs xy by (simp add: digits_value_def algebra_simps)
qed

lemma pairs_head:
  "pairs (a # b # r) = Some bs \<Longrightarrow> digit_val a = Some x \<Longrightarrow> digit_val b = Some y \<Longrightarrow> hd bs = 16 * x + y \<and> bs \<noteq> []"
  by (auto split: option.splits)

lemma hex_digits_255: "hex_digits 255 = ''ff''"
  by code_simp

lemma padded_digits:
  assumes "0 < m"
  defines "pd \<equiv> (if length (hex_digits m) mod 2 = 0 then hex_digits m else CHR ''0'' # hex_digits m)"
  shows "\<exists>bs. pairs pd = Some bs \<and> be_value bs = m \<and> no_leading_zero bs"
proof -
  have low: "list_all lower_hex pd"
    using hex_digits_lower [of m] by (simp add: pd_def lower_hex_def)
  have ev: "even (length pd)" by (auto simp: pd_def)
  from pairs_value [OF low ev] obtain bs where bs: "pairs pd = Some bs"
    and val: "\<forall>acc. foldl (\<lambda>a b. a * 256 + b) acc bs = digits_value acc pd" by blast
  have "digits_value 0 pd = digits_value 0 (hex_digits m)"
    by (simp add: pd_def digits_value_def digit_val_zero)
  with val have v: "be_value bs = m" by (simp add: be_value_def hex_digits_value)
  from hex_digits_head [OF assms(1)] obtain d r where
    hd: "hex_digits m = hexchar d # r" "0 < d" "d < 16" by blast
  have "no_leading_zero bs"
  proof (cases "length (hex_digits m) mod 2 = 0")
    case True
    with hd obtain b r' where r: "r = b # r'" by (cases r) auto
    from low True hd r obtain y where "digit_val b = Some y"
      using lower_hex_digit_val [of b] by (auto simp: pd_def)
    with bs True hd r show ?thesis
      by (auto simp: pd_def no_leading_zero_def digit_val_hexchar split: option.splits)
  next
    case False
    with bs hd show ?thesis
      by (auto simp: pd_def no_leading_zero_def digit_val_hexchar digit_val_zero split: option.splits)
  qed
  with bs v show ?thesis by blast
qed

lemma digit_val_less: "digit_val c = Some d \<Longrightarrow> d < 16"
  by (auto simp: digit_val_def Let_def split: if_splits)

lemma pairs_bytes: "pairs ds = Some bs \<Longrightarrow> list_all (\<lambda>b. b < 256) bs"
proof (induction ds arbitrary: bs rule: pairs.induct)
  case 1
  then show ?case by simp
next
  case (2 c)
  then show ?case by simp
next
  case (3 a b r)
  from "3.prems" obtain x y bs' where
    p: "digit_val a = Some x" "digit_val b = Some y" "pairs r = Some bs'" "bs = (16 * x + y) # bs'"
    by (auto split: option.splits)
  from p(1,2) have "16 * x + y < 256"
    using digit_val_less [of a x] digit_val_less [of b y] by simp
  with "3.IH" [OF p(3)] p(4) show ?case by simp
qed

lemma encodeInt_bytes:
  assumes "BigInt x = Inr n" and "0 \<le> n"
  shows "\<exists>h bs. encodeInt x = Inr h \<and> hex_bytes h = Some bs \<and> int (be_value bs) = n \<and>
           no_leading_zero bs \<and> list_all (\<lambda>b. b < 256) bs \<and> list_all lower_hex (drop 2 h) \<and>
           (n = 0 \<longrightarrow> h = ''0x'' \<and> bs = []) \<and> (n = 255 \<longrightarrow> h = ''0xff'')"
proof (cases "n = 0")
  case True
  with assms show ?thesis
    by (simp add: encodeInt_def hex_bytes_def be_value_def no_leading_zero_def)
next
  case False
  with assms have pos: "0 < nat n" by simp
  define ds where "ds = hex_digits (nat n)"
  define pd where "pd = (if length ds mod 2 = 0 then ds else CHR ''0'' # ds)"
  have low: "list_all lower_hex ds" by (simp add: ds_def hex_digits_lower)
  have enc: "encodeInt x = Inr (''0x'' @ pd)"
    using assms False low by (simp add: encodeInt_def toString16_def strip0x_lower ds_def [symmetric] pd_def)
  from padded_digits [OF pos] obtain bs where
    bs: "pairs pd = Some bs" "be_value bs = nat n" "no_leading_zero bs"
    unfolding pd_def ds_def by blast
  have lowpd: "list_all lower_hex pd" using low by (simp add: pd_def lower_hex_def)
  have ff: "n = 255 \<Longrightarrow> pd = ''ff''"
    by (simp add: pd_def ds_def hex_digits_255)
  show ?thesis
    using enc bs lowpd assms(2) False ff pairs_bytes [OF bs(1)] by (auto simp: hex_bytes_def)
qed

section \<open>Which errors each function can raise\<close>

lemma cleanHex_error: "cleanHex v = Inl e \<Longrightarrow> e = TypeError"
  by (cases v) (simp_all add: Let_def)

lemma BigInt_error: "BigInt v = Inl e \<Longrightarrow> e = TypeError \<or> e = SyntaxError"
  by (cases v) (auto split: option.splits)

lemma encodeInt_error: "encodeInt v = Inl e \<Longrightarrow> e = TypeError \<or> e = SyntaxError"
  by (auto simp: encodeInt_def Let_def split: sum.splits if_splits dest: BigInt_error cleanHex_error)

lemma sequenceE_error: "sequenceE rs = Inl e \<Longrightarrow> Inl e \<in> set rs"
  by (induction rs) (auto split: sum.splits)

lemma baseFields_error: "baseFields h = Inl e \<Longrightarrow> e = TypeError \<or> e = SyntaxError"
  unfolding baseFields_def
  by (drule sequenceE_error) (auto dest: cleanHex_error [OF sym] encodeInt_error [OF sym])

lemma pushIf_error:
  "pushIf c item fs = Inl e \<Longrightarrow> item = Inl e"
  by (auto simp: pushIf_def bindE_def split: if_splits sum.splits)

lemma headerFields_error: "headerFields h = Inl e \<Longrightarrow> e = TypeError \<or> e = SyntaxError"
  unfolding headerFields_def bindE_def
  by (auto split: sum.splits dest!: pushIf_error dest: baseFields_error cleanHex_error encodeInt_error)

lemma toRlp_error: "toRlp P xs = Inl e \<Longrightarrow> e = PrimitiveError"
  by (auto simp: toRlp_def split: option.splits)

lemma keccak256_error: "keccak256 P v = Inl e \<Longrightarrow> e = PrimitiveError"
  by (cases v) (auto split: option.splits)

lemma encodeBlockHeaderToRlp_error:
  "encodeBlockHeaderToRlp P h = Inl e \<Longrightarrow> e = TypeError \<or> e = SyntaxError \<or> e = PrimitiveError"
  by (auto simp: encodeBlockHeaderToRlp_def bindE_def split: sum.splits
      dest: headerFields_error toRlp_error)

lemma pad_error: "pad k s = Inl e \<Longrightarrow> e = SizeExceedsPaddingSizeError"
  by (auto simp: pad_def Let_def split: if_splits)

lemma numberToHex_error:
  "numberToHex sz v = Inl e \<Longrightarrow> e = IntegerOutOfRangeError \<or> e = SizeExceedsPaddingSizeError"
  by (auto simp: numberToHex_def Let_def split: if_splits option.splits dest: pad_error)

lemma toHex_error:
  "toHex v = Inl e \<Longrightarrow> e = IntegerOutOfRangeError \<or> e = SizeExceedsPaddingSizeError \<or> e = TypeError"
  by (cases v) (auto dest: numberToHex_error)

lemma getRlpBlockHeader_fst:
  "fst (getRlpBlockHeader P c bn h) =
     (case toHex (JBigInt bn) of
        Inl e \<Rightarrow> manualHeader P h
      | Inr p \<Rightarrow> (case debug_getRawHeader c p of
                    Inr rawHeader \<Rightarrow> Inr (rawHeader, Method_debug_getRawHeader)
                  | Inl m \<Rightarrow> manualHeader P h))"
  by (auto simp: getRlpBlockHeader_def manualHeader_def bindE_def Let_def split: sum.splits)

lemma manualHeader_error:
  "manualHeader P h = Inl e \<Longrightarrow> e = TypeError \<or> e = SyntaxError \<or> e = PrimitiveError"
  by (auto simp: manualHeader_def split: sum.splits dest: encodeBlockHeaderToRlp_error)

lemma getRlpBlockHeader_error:
  "fst (getRlpBlockHeader P c bn h) = Inl e \<Longrightarrow> e = TypeError \<or> e = SyntaxError \<or> e = PrimitiveError"
  unfolding getRlpBlockHeader_fst
  by (auto split: sum.splits dest: manualHeader_error)

lemma getStorageAndAccountProof_error:
  "fst (getStorageAndAccountProof P c a s bn) = Inl e \<Longrightarrow>
     e = IntegerOutOfRangeError \<or> e = SizeExceedsPaddingSizeError \<or> e = TypeError \<or>
     e = PrimitiveError \<or> (\<exists>m. e = RpcError m)"
  by (auto simp: getStorageAndAccountProof_def bindE_def split: sum.splits list.splits
      dest: numberToHex_error keccak256_error toRlp_error)

lemma getRlpBlockHeader_error_pair:
  "getRlpBlockHeader P c bn h = (Inl e, t) \<Longrightarrow> e = TypeError \<or> e = SyntaxError \<or> e = PrimitiveError"
  using getRlpBlockHeader_error [of P c bn h e] by simp

lemma getStorageAndAccountProof_error_pair:
  "getStorageAndAccountProof P c a s bn = (Inl e, t) \<Longrightarrow>
     e = IntegerOutOfRangeError \<or> e = SizeExceedsPaddingSizeError \<or> e = TypeError \<or>
     e = PrimitiveError \<or> (\<exists>m. e = RpcError m)"
  using getStorageAndAccountProof_error [of P c a s bn e] by simp

section \<open>The stages of a call\<close>

declare keccak256.simps [simp del]

lemma keccak256_index0:
  "keccak256 P (index0 xs) = Inr root \<Longrightarrow> \<exists>node rest. xs = node # rest \<and> keccak256 P (JString node) = Inr root"
  by (cases xs) (simp_all add: index0_def keccak256.simps)

lemma bindE_Inr: "bindE r f = Inr y \<Longrightarrow> \<exists>x. r = Inr x \<and> f x = Inr y"
  by (cases r) (auto simp: bindE_def)

lemma getStorageAndAccountProof_success:
  assumes "getStorageAndAccountProof P c a s bn = (Inr (root, rap, rsp, sv), t)"
  shows "\<exists>k resp node rest s0 srest.
           numberToHex (Some 32) s = Inr k \<and> getProof c a [k] bn = Inr resp \<and>
           accountProof resp = node # rest \<and> keccak256 P (JString node) = Inr root \<and>
           toRlp P (accountProof resp) = Inr rap \<and>
           storageProof resp = s0 # srest \<and> toRlp P (sp_proof s0) = Inr rsp \<and>
           toHex (JBigInt (sp_value s0)) = Inr sv \<and> t = [CallGetProof a [k] bn]"
proof -
  from assms obtain k where k: "numberToHex (Some 32) s = Inr k"
    by (auto simp: getStorageAndAccountProof_def split: sum.splits)
  with assms obtain resp where resp: "getProof c a [k] bn = Inr resp"
    by (auto simp: getStorageAndAccountProof_def split: sum.splits)
  from assms k resp have t: "t = [CallGetProof a [k] bn]"
    by (simp add: getStorageAndAccountProof_def)
  from assms k resp have
    "bindE (keccak256 P (index0 (accountProof resp))) (\<lambda>computedStateRoot.
       bindE (toRlp P (accountProof resp)) (\<lambda>rlpAccountProof.
         case storageProof resp of
           [] \<Rightarrow> Inl TypeError
         | s0 # rest \<Rightarrow>
             bindE (toRlp P (sp_proof s0)) (\<lambda>rlpStorageProof.
             bindE (toHex (JBigInt (sp_value s0))) (\<lambda>slotValue.
               Inr (computedStateRoot, rlpAccountProof, rlpStorageProof, slotValue))))) =
     Inr (root, rap, rsp, sv)"
    by (simp add: getStorageAndAccountProof_def)
  from bindE_Inr [OF this] obtain r1 where r1: "keccak256 P (index0 (accountProof resp)) = Inr r1"
    and b1: "bindE (toRlp P (accountProof resp)) (\<lambda>rlpAccountProof.
         case storageProof resp of
           [] \<Rightarrow> Inl TypeError
         | s0 # rest \<Rightarrow>
             bindE (toRlp P (sp_proof s0)) (\<lambda>rlpStorageProof.
             bindE (toHex (JBigInt (sp_value s0))) (\<lambda>slotValue.
               Inr (r1, rlpAccountProof, rlpStorageProof, slotValue)))) = Inr (root, rap, rsp, sv)"
    by blast
  from bindE_Inr [OF b1] obtain r2 where r2: "toRlp P (accountProof resp) = Inr r2"
    and b2: "(case storageProof resp of
           [] \<Rightarrow> Inl TypeError
         | s0 # rest \<Rightarrow>
             bindE (toRlp P (sp_proof s0)) (\<lambda>rlpStorageProof.
             bindE (toHex (JBigInt (sp_value s0))) (\<lambda>slotValue.
               Inr (r1, r2, rlpStorageProof, slotValue)))) = Inr (root, rap, rsp, sv)"
    by blast
  from b2 obtain s0 srest where s0: "storageProof resp = s0 # srest"
    by (cases "storageProof resp") auto
  from b2 s0 have b3: "bindE (toRlp P (sp_proof s0)) (\<lambda>rlpStorageProof.
             bindE (toHex (JBigInt (sp_value s0))) (\<lambda>slotValue.
               Inr (r1, r2, rlpStorageProof, slotValue))) = Inr (root, rap, rsp, sv)"
    by simp
  from bindE_Inr [OF b3] obtain r3 where r3: "toRlp P (sp_proof s0) = Inr r3"
    and b4: "bindE (toHex (JBigInt (sp_value s0))) (\<lambda>slotValue.
               Inr (r1, r2, r3, slotValue)) = Inr (root, rap, rsp, sv)"
    by blast
  from bindE_Inr [OF b4] obtain r4 where r4: "toHex (JBigInt (sp_value s0)) = Inr r4"
    and e: "(r1, r2, r3, r4) = (root, rap, rsp, sv)"
    by blast
  from e r1 r2 r3 r4 have "keccak256 P (index0 (accountProof resp)) = Inr root"
    "toRlp P (accountProof resp) = Inr rap" "toRlp P (sp_proof s0) = Inr rsp"
    "toHex (JBigInt (sp_value s0)) = Inr sv" by simp_all
  with keccak256_index0 [of P "accountProof resp" root] k resp t s0 show ?thesis by blast
qed

lemma gen_getBlock_fails:
  "c = net (o_rpc opts) \<Longrightarrow> n = o_blockNumber opts \<Longrightarrow> getBlock c n = Inl m \<Longrightarrow>
     generateStorageProof P net opts = (Inl (RpcError m), [CallGetBlock (o_blockNumber opts)])"
  by (simp add: generateStorageProof_def)

lemma gen_resolve_fails:
  "c = net (o_rpc opts) \<Longrightarrow> n = o_blockNumber opts \<Longrightarrow> getBlock c n = Inr h \<Longrightarrow>
   getRlpBlockHeader P c n h = (Inl e, t1) \<Longrightarrow>
     generateStorageProof P net opts = (Inl e, CallGetBlock (o_blockNumber opts) # t1)"
  by (simp add: generateStorageProof_def)

lemma gen_keccak_fails:
  "c = net (o_rpc opts) \<Longrightarrow> n = o_blockNumber opts \<Longrightarrow> getBlock c n = Inr h \<Longrightarrow>
   getRlpBlockHeader P c n h = (Inr (rlp, m), t1) \<Longrightarrow>
   keccak256 P (JString rlp) = Inl e \<Longrightarrow>
     generateStorageProof P net opts = (Inl e, CallGetBlock (o_blockNumber opts) # t1)"
  by (simp add: generateStorageProof_def)

lemma gen_hash_differs:
  "c = net (o_rpc opts) \<Longrightarrow> n = o_blockNumber opts \<Longrightarrow> getBlock c n = Inr h \<Longrightarrow>
   getRlpBlockHeader P c n h = (Inr (rlp, m), t1) \<Longrightarrow>
   keccak256 P (JString rlp) = Inr k \<Longrightarrow> JString k \<noteq> hash h \<Longrightarrow>
     generateStorageProof P net opts =
       (Inl (BlockHashMismatchError (hash h) k), CallGetBlock (o_blockNumber opts) # t1)"
  by (simp add: generateStorageProof_def)

lemma gen_proof_fails:
  "c = net (o_rpc opts) \<Longrightarrow> n = o_blockNumber opts \<Longrightarrow> getBlock c n = Inr h \<Longrightarrow>
   getRlpBlockHeader P c n h = (Inr (rlp, m), t1) \<Longrightarrow>
   keccak256 P (JString rlp) = Inr k \<Longrightarrow> JString k = hash h \<Longrightarrow>
   getStorageAndAccountProof P c (o_account opts) (o_slot opts) n = (Inl e, t2) \<Longrightarrow>
     generateStorageProof P net opts = (Inl e, CallGetBlock (o_blockNumber opts) # t1 @ t2)"
  by (simp add: generateStorageProof_def)

lemma gen_root_differs:
  "c = net (o_rpc opts) \<Longrightarrow> n = o_blockNumber opts \<Longrightarrow> getBlock c n = Inr h \<Longrightarrow>
   getRlpBlockHeader P c n h = (Inr (rlp, m), t1) \<Longrightarrow>
   keccak256 P (JString rlp) = Inr k \<Longrightarrow> JString k = hash h \<Longrightarrow>
   getStorageAndAccountProof P c (o_account opts) (o_slot opts) n =
     (Inr (root, rap, rsp, sv), t2) \<Longrightarrow>
   JString root \<noteq> stateRoot h \<Longrightarrow>
     generateStorageProof P net opts =
       (Inl (StateRootMismatchError (stateRoot h) root), CallGetBlock (o_blockNumber opts) # t1 @ t2)"
  by (simp add: generateStorageProof_def)

lemma gen_roots_agree:
  "c = net (o_rpc opts) \<Longrightarrow> n = o_blockNumber opts \<Longrightarrow> getBlock c n = Inr h \<Longrightarrow>
   getRlpBlockHeader P c n h = (Inr (rlp, m), t1) \<Longrightarrow>
   keccak256 P (JString rlp) = Inr k \<Longrightarrow> JString k = hash h \<Longrightarrow>
   getStorageAndAccountProof P c (o_account opts) (o_slot opts) n =
     (Inr (root, rap, rsp, sv), t2) \<Longrightarrow>
   JString root = stateRoot h \<Longrightarrow>
     generateStorageProof P net opts =
       (bindE (toHex (number h)) (\<lambda>bn.
        bindE (numberToHex (Some 32) (o_slot opts)) (\<lambda>sl.
          Inr \<lparr>p_blockNumber = bn,
               p_blockHash = hash h,
               p_stateRoot = stateRoot h,
               p_account = o_account opts,
               p_slot = sl,
               p_slotValue = sv,
               p_rlpBlockHeader = rlp,
               p_rlpAccountProof = rap,
               p_rlpStorageProof = rsp,
               p_sendRoot = copySendRoot h\<rparr>)),
        CallGetBlock (o_blockNumber opts) # t1 @ t2)"
  by (simp add: generateStorageProof_def)

text \<open>The stages a returned result went through.\<close>

lemma gen_success:
  assumes "fst (generateStorageProof P net opts) = Inr r"
  shows "\<exists>h rlp m t1 k root rap rsp sv t2 bn sl.
      getBlock (net (o_rpc opts)) (o_blockNumber opts) = Inr h \<and>
      getRlpBlockHeader P (net (o_rpc opts)) (o_blockNumber opts) h = (Inr (rlp, m), t1) \<and>
      keccak256 P (JString rlp) = Inr k \<and> JString k = hash h \<and>
      getStorageAndAccountProof P (net (o_rpc opts)) (o_account opts) (o_slot opts) (o_blockNumber opts) =
        (Inr (root, rap, rsp, sv), t2) \<and>
      JString root = stateRoot h \<and>
      toHex (number h) = Inr bn \<and> numberToHex (Some 32) (o_slot opts) = Inr sl \<and>
      snd (generateStorageProof P net opts) = CallGetBlock (o_blockNumber opts) # t1 @ t2 \<and>
      r = \<lparr>p_blockNumber = bn, p_blockHash = hash h, p_stateRoot = stateRoot h,
           p_account = o_account opts, p_slot = sl, p_slotValue = sv, p_rlpBlockHeader = rlp,
           p_rlpAccountProof = rap, p_rlpStorageProof = rsp, p_sendRoot = copySendRoot h\<rparr>"
proof -
  let ?c = "net (o_rpc opts)" and ?n = "o_blockNumber opts"
  obtain h where h: "getBlock ?c ?n = Inr h"
    using assms gen_getBlock_fails [where net = net and opts = opts and P = P, OF refl refl] by (cases "getBlock ?c ?n") auto
  obtain x t1 where x: "getRlpBlockHeader P ?c ?n h = (x, t1)" by (cases "getRlpBlockHeader P ?c ?n h")
  obtain rlp m where rlp: "x = Inr (rlp, m)"
    using assms gen_resolve_fails [where net = net and opts = opts, OF refl refl h, of P _ t1] x by (cases x) auto
  note x = x [unfolded rlp]
  obtain k where k: "keccak256 P (JString rlp) = Inr k"
    using assms gen_keccak_fails [where net = net and opts = opts, OF refl refl h x] by (cases "keccak256 P (JString rlp)") auto
  have eq: "JString k = hash h"
  proof (rule ccontr)
    assume "JString k \<noteq> hash h"
    from gen_hash_differs [where net = net and opts = opts, OF refl refl h x k this] assms
    show False by simp
  qed
  obtain y t2 where y: "getStorageAndAccountProof P ?c (o_account opts) (o_slot opts) ?n = (y, t2)"
    by (cases "getStorageAndAccountProof P ?c (o_account opts) (o_slot opts) ?n")
  obtain root rap rsp sv where yr: "y = Inr (root, rap, rsp, sv)"
    using assms gen_proof_fails [where net = net and opts = opts, OF refl refl h x k eq, of _ t2] y by (cases y) auto
  note y = y [unfolded yr]
  have req: "JString root = stateRoot h"
  proof (rule ccontr)
    assume "JString root \<noteq> stateRoot h"
    from gen_root_differs [where net = net and opts = opts, OF refl refl h x k eq y this] assms
    show False by simp
  qed
  note g = gen_roots_agree [where net = net and opts = opts, OF refl refl h x k eq y req]
  from assms g obtain bn where bn: "toHex (number h) = Inr bn"
    by (cases "toHex (number h)") (auto simp: bindE_def)
  from assms g bn obtain sl where sl: "numberToHex (Some 32) (o_slot opts) = Inr sl"
    by (cases "numberToHex (Some 32) (o_slot opts)") (auto simp: bindE_def)
  from assms g bn sl have "r = \<lparr>p_blockNumber = bn, p_blockHash = hash h, p_stateRoot = stateRoot h,
           p_account = o_account opts, p_slot = sl, p_slotValue = sv, p_rlpBlockHeader = rlp,
           p_rlpAccountProof = rap, p_rlpStorageProof = rsp, p_sendRoot = copySendRoot h\<rparr>"
    by (simp add: bindE_def)
  moreover from g have "snd (generateStorageProof P net opts) = CallGetBlock ?n # t1 @ t2" by simp
  ultimately show ?thesis using h x k eq y req bn sl by blast
qed

lemma gen_outcome:
  fixes P net opts
  defines "c \<equiv> net (o_rpc opts)" and "n \<equiv> o_blockNumber opts"
  defines "g \<equiv> generateStorageProof P net opts"
  obtains
    (block_rejected) m where "getBlock c n = Inl m" "g = (Inl (RpcError m), [CallGetBlock n])"
  | (resolve_throws) h e t1 where "getBlock c n = Inr h" "getRlpBlockHeader P c n h = (Inl e, t1)"
      "g = (Inl e, CallGetBlock n # t1)"
  | (hash_throws) h rlp m t1 e where "getBlock c n = Inr h"
      "getRlpBlockHeader P c n h = (Inr (rlp, m), t1)" "keccak256 P (JString rlp) = Inl e"
      "g = (Inl e, CallGetBlock n # t1)"
  | (hash_differs) h rlp m t1 k where "getBlock c n = Inr h"
      "getRlpBlockHeader P c n h = (Inr (rlp, m), t1)" "keccak256 P (JString rlp) = Inr k"
      "JString k \<noteq> hash h"
      "g = (Inl (BlockHashMismatchError (hash h) k), CallGetBlock n # t1)"
  | (proof_throws) h rlp m t1 k e t2 where "getBlock c n = Inr h"
      "getRlpBlockHeader P c n h = (Inr (rlp, m), t1)" "keccak256 P (JString rlp) = Inr k"
      "JString k = hash h"
      "getStorageAndAccountProof P c (o_account opts) (o_slot opts) n = (Inl e, t2)"
      "g = (Inl e, CallGetBlock n # t1 @ t2)"
  | (root_differs) h rlp m t1 k root rap rsp sv t2 where "getBlock c n = Inr h"
      "getRlpBlockHeader P c n h = (Inr (rlp, m), t1)" "keccak256 P (JString rlp) = Inr k"
      "JString k = hash h"
      "getStorageAndAccountProof P c (o_account opts) (o_slot opts) n = (Inr (root, rap, rsp, sv), t2)"
      "JString root \<noteq> stateRoot h"
      "g = (Inl (StateRootMismatchError (stateRoot h) root), CallGetBlock n # t1 @ t2)"
  | (format_throws) h rlp m t1 k root rap rsp sv t2 e where "getBlock c n = Inr h"
      "getRlpBlockHeader P c n h = (Inr (rlp, m), t1)" "keccak256 P (JString rlp) = Inr k"
      "JString k = hash h"
      "getStorageAndAccountProof P c (o_account opts) (o_slot opts) n = (Inr (root, rap, rsp, sv), t2)"
      "JString root = stateRoot h" "toHex (number h) = Inl e"
      "g = (Inl e, CallGetBlock n # t1 @ t2)"
  | (returns) h rlp m t1 k root rap rsp sv t2 bn sl where "getBlock c n = Inr h"
      "getRlpBlockHeader P c n h = (Inr (rlp, m), t1)" "keccak256 P (JString rlp) = Inr k"
      "JString k = hash h"
      "getStorageAndAccountProof P c (o_account opts) (o_slot opts) n = (Inr (root, rap, rsp, sv), t2)"
      "JString root = stateRoot h" "toHex (number h) = Inr bn"
      "numberToHex (Some 32) (o_slot opts) = Inr sl"
      "g = (Inr \<lparr>p_blockNumber = bn, p_blockHash = hash h, p_stateRoot = stateRoot h,
           p_account = o_account opts, p_slot = sl, p_slotValue = sv, p_rlpBlockHeader = rlp,
           p_rlpAccountProof = rap, p_rlpStorageProof = rsp, p_sendRoot = copySendRoot h\<rparr>,
          CallGetBlock n # t1 @ t2)"
proof (cases "getBlock c n")
  case (Inl m)
  from gen_getBlock_fails [where net = net and opts = opts and P = P, OF refl refl, of m] Inl
  show ?thesis using block_rejected by (simp add: c_def n_def g_def)
next
  case (Inr h)
  note h = Inr
  obtain x t1 where x: "getRlpBlockHeader P c n h = (x, t1)" by (cases "getRlpBlockHeader P c n h")
  show ?thesis
  proof (cases x)
    case (Inl e)
    from gen_resolve_fails [where net = net and opts = opts, OF c_def [THEN meta_eq_to_obj_eq] n_def [THEN meta_eq_to_obj_eq] h x [unfolded Inl]]
    show ?thesis using resolve_throws h x Inl by (simp add: g_def n_def)
  next
    case (Inr p)
    obtain rlp m where p: "p = (rlp, m)" by (cases p)
    note x = x [unfolded Inr p]
    note base = c_def [THEN meta_eq_to_obj_eq] n_def [THEN meta_eq_to_obj_eq] h x
    show ?thesis
    proof (cases "keccak256 P (JString rlp)")
      case (Inl e)
      from gen_keccak_fails [where net = net and opts = opts, OF base Inl]
      show ?thesis using hash_throws h x Inl by (simp add: g_def n_def)
    next
      case (Inr k)
      note k = Inr
      show ?thesis
      proof (cases "JString k = hash h")
        case False
        from gen_hash_differs [where net = net and opts = opts, OF base k False]
        show ?thesis using hash_differs h x k False by (simp add: g_def n_def)
      next
        case True
        note eq = True
        obtain y t2 where y: "getStorageAndAccountProof P c (o_account opts) (o_slot opts) n = (y, t2)"
          by (cases "getStorageAndAccountProof P c (o_account opts) (o_slot opts) n")
        show ?thesis
        proof (cases y)
          case (Inl e)
          from gen_proof_fails [where net = net and opts = opts, OF base k eq y [unfolded Inl]]
          show ?thesis using proof_throws h x k eq y Inl by (simp add: g_def n_def)
        next
          case (Inr q)
          obtain root rap rsp sv where q: "q = (root, rap, rsp, sv)" by (cases q) auto
          note y = y [unfolded Inr q]
          show ?thesis
          proof (cases "JString root = stateRoot h")
            case False
            from gen_root_differs [where net = net and opts = opts, OF base k eq y False]
            show ?thesis using root_differs h x k eq y False by (simp add: g_def n_def)
          next
            case True
            note g = gen_roots_agree [where net = net and opts = opts, OF base k eq y True]
            from getStorageAndAccountProof_success [OF y] obtain sl where
              sl: "numberToHex (Some 32) (o_slot opts) = Inr sl" by blast
            show ?thesis
            proof (cases "toHex (number h)")
              case (Inl e)
              with g have "g = (Inl e, CallGetBlock n # t1 @ t2)"
                by (simp add: g_def n_def bindE_def)
              then show ?thesis using format_throws h x k eq y True Inl by blast
            next
              case (Inr bn)
              with g sl have "g = (Inr \<lparr>p_blockNumber = bn, p_blockHash = hash h, p_stateRoot = stateRoot h,
                 p_account = o_account opts, p_slot = sl, p_slotValue = sv, p_rlpBlockHeader = rlp,
                 p_rlpAccountProof = rap, p_rlpStorageProof = rsp, p_sendRoot = copySendRoot h\<rparr>,
                CallGetBlock n # t1 @ t2)"
                by (simp add: g_def n_def bindE_def)
              then show ?thesis using returns h x k eq y True Inr sl by blast
            qed
          qed
        qed
      qed
    qed
  qed
qed

section \<open>The number formatter\<close>

lemma hex_digits_length: "0 < k \<Longrightarrow> n < 16 ^ k \<Longrightarrow> length (hex_digits n) \<le> k"
proof (induction n arbitrary: k rule: hex_digits.induct)
  case (1 n)
  show ?case
  proof (cases "n < 16")
    case True
    with "1.prems" show ?thesis by (subst hex_digits.simps) simp
  next
    case False
    with "1.prems" obtain j where j: "k = Suc j" by (cases k) auto
    with False "1.prems" have "0 < j" by (cases j) auto
    moreover from "1.prems" j have "n div 16 < 16 ^ j"
      by (simp add: less_mult_imp_div_less mult.commute)
    ultimately have "length (hex_digits (n div 16)) \<le> j" using "1.IH" False by blast
    with False j show ?thesis by (subst hex_digits.simps) simp
  qed
qed

lemma lower_hex_zero: "lower_hex CHR ''0''"
  by (simp add: lower_hex_def)

lemma numberToHex_32:
  assumes "0 \<le> v" and "v < 2 ^ 256"
  shows "numberToHex (Some 32) v =
    Inr (''0x'' @ replicate (64 - length (hex_digits (nat v))) CHR ''0'' @ hex_digits (nat v))"
    and "length (hex_digits (nat v)) \<le> 64"
proof -
  have "nat v < 2 ^ 256" using assms by (simp add: nat_less_iff)
  also have "(2::nat) ^ 256 = 16 ^ 64" by simp
  finally show len: "length (hex_digits (nat v)) \<le> 64" by (intro hex_digits_length) simp_all
  have "strip0x (''0x'' @ hex_digits (nat v)) = hex_digits (nat v)" by (simp add: strip0x_def)
  with assms len show "numberToHex (Some 32) v =
    Inr (''0x'' @ replicate (64 - length (hex_digits (nat v))) CHR ''0'' @ hex_digits (nat v))"
    by (simp add: numberToHex_def pad_def toString16_def Let_def del: strip0x_def)
qed

lemma numberToHex_32_range:
  "numberToHex (Some 32) v = Inr s \<Longrightarrow> 0 \<le> v \<and> v < 2 ^ 256"
  by (auto simp: numberToHex_def Let_def split: if_splits)

lemma digits_value_zeros: "digits_value acc (replicate k CHR ''0'' @ ds) = digits_value (acc * 16 ^ k) ds"
  by (induction k arbitrary: acc) (simp_all add: digits_value_def digit_val_zero algebra_simps)

lemma pairs_length: "pairs ds = Some bs \<Longrightarrow> length ds = 2 * length bs"
proof (induction ds arbitrary: bs rule: pairs.induct)
  case 1
  then show ?case by simp
next
  case (2 c)
  then show ?case by simp
next
  case (3 a b r)
  then show ?case by (auto split: option.splits)
qed

lemma padded_slot:
  assumes "length (hex_digits n) \<le> 64"
  defines "s \<equiv> replicate (64 - length (hex_digits n)) CHR ''0'' @ hex_digits n"
  shows "length s = 64" and "list_all lower_hex s"
    and "\<exists>bs. pairs s = Some bs \<and> length bs = 32 \<and> be_value bs = n"
proof -
  show len: "length s = 64" using assms by (simp add: s_def)
  show low: "list_all lower_hex s"
    using hex_digits_lower [of n]
    by (auto simp: s_def lower_hex_zero list_all_iff set_replicate_conv_if split: if_splits)
  from len have "even (length s)" by simp
  from pairs_value [OF low this] obtain bs where bs: "pairs s = Some bs"
    and val: "\<forall>acc. foldl (\<lambda>a b. a * 256 + b) acc bs = digits_value acc s" by blast
  from val have "be_value bs = digits_value 0 s" by (simp add: be_value_def)
  also have "\<dots> = n" by (simp add: s_def digits_value_zeros hex_digits_value)
  finally have "be_value bs = n" .
  moreover from pairs_length [OF bs] len have "length bs = 32" by simp
  ultimately show "\<exists>bs. pairs s = Some bs \<and> length bs = 32 \<and> be_value bs = n"
    using bs by blast
qed

lemma toString16_lower: "0 \<le> v \<Longrightarrow> list_all lower_hex (toString16 v)"
  by (simp add: toString16_def hex_digits_lower)

lemma toString16_lower_set: "x \<in> set (toString16 v) \<Longrightarrow> \<not> v < 0 \<Longrightarrow> lower_hex x"
  using toString16_lower [of v] by (simp add: list_all_iff)

lemma numberToHex_lowercase: "numberToHex sz v = Inr s \<Longrightarrow> lowercase_hex s"
  by (auto simp: numberToHex_def pad_def Let_def lowercase_hex_def strip0x_def
      lower_hex_zero list_all_iff set_replicate_conv_if
      split: if_splits option.splits dest: toString16_lower_set)

lemma byte_hex_lower: "list_all lower_hex (byte_hex c)"
proof -
  have "(of_char c :: nat) < 256" by simp
  then have "(of_char c :: nat) div 16 < 16" by (intro less_mult_imp_div_less) simp
  then show ?thesis by (simp add: byte_hex_def lower_hex_hexchar)
qed

lemma stringToHex_lowercase: "lowercase_hex (stringToHex s)"
  using byte_hex_lower by (auto simp: stringToHex_def lowercase_hex_def list_all_iff)

lemma toHex_lowercase: "toHex v = Inr s \<Longrightarrow> lowercase_hex s"
  by (cases v) (auto simp: stringToHex_lowercase dest: numberToHex_lowercase)

section \<open>The items the encoder emits\<close>

lemma baseFields_items:
  assumes "baseFields h = Inr f0"
  shows "length f0 = 15"
    and "encodeInt (difficulty h) = Inr (f0 ! 7)" and "encodeInt (number h) = Inr (f0 ! 8)"
    and "encodeInt (gasLimit h) = Inr (f0 ! 9)" and "encodeInt (gasUsed h) = Inr (f0 ! 10)"
    and "encodeInt (timestamp h) = Inr (f0 ! 11)"
  using assms by (auto simp: baseFields_def split: sum.splits)

lemma pushIf_Inr:
  "pushIf c item fs = Inr fs' \<Longrightarrow> (c \<and> (\<exists>x. item = Inr x \<and> fs' = fs @ [x])) \<or> (\<not> c \<and> fs' = fs)"
  by (auto simp: pushIf_def bindE_def split: if_splits sum.splits)

lemma headerFields_shape:
  assumes "headerFields h = Inr fs"
  shows "\<exists>f0 t1 t2 t3 t4 t5 t6.
    baseFields h = Inr f0 \<and> fs = f0 @ t1 @ t2 @ t3 @ t4 @ t5 @ t6 \<and>
    (if truthy (baseFeePerGas h) then \<exists>x. encodeInt (baseFeePerGas h) = Inr x \<and> t1 = [x] else t1 = []) \<and>
    (if truthy (withdrawalsRoot h) then \<exists>x. cleanHex (withdrawalsRoot h) = Inr x \<and> t2 = [x] else t2 = []) \<and>
    (if truthy (blobGasUsed h) then \<exists>x. encodeInt (blobGasUsed h) = Inr x \<and> t3 = [x] else t3 = []) \<and>
    (if excessBlobGas h \<noteq> JUndefined then \<exists>x. encodeInt (excessBlobGas h) = Inr x \<and> t4 = [x] else t4 = []) \<and>
    (if truthy (parentBeaconBlockRoot h) then \<exists>x. cleanHex (parentBeaconBlockRoot h) = Inr x \<and> t5 = [x] else t5 = []) \<and>
    (if truthy (requestsHash h) then \<exists>x. cleanHex (requestsHash h) = Inr x \<and> t6 = [x] else t6 = [])"
proof -
  from assms [unfolded headerFields_def] obtain f0 f1 f2 f3 f4 f5 where
    f0: "baseFields h = Inr f0"
    and p1: "pushIf (truthy (baseFeePerGas h)) (encodeInt (baseFeePerGas h)) f0 = Inr f1"
    and p2: "pushIf (truthy (withdrawalsRoot h)) (cleanHex (withdrawalsRoot h)) f1 = Inr f2"
    and p3: "pushIf (truthy (blobGasUsed h)) (encodeInt (blobGasUsed h)) f2 = Inr f3"
    and p4: "pushIf (excessBlobGas h \<noteq> JUndefined) (encodeInt (excessBlobGas h)) f3 = Inr f4"
    and p5: "pushIf (truthy (parentBeaconBlockRoot h)) (cleanHex (parentBeaconBlockRoot h)) f4 = Inr f5"
    and p6: "pushIf (truthy (requestsHash h)) (cleanHex (requestsHash h)) f5 = Inr fs"
    by (auto dest!: bindE_Inr)
  have step: "pushIf c item xs = Inr ys \<Longrightarrow>
      \<exists>t. ys = xs @ t \<and> (if c then \<exists>x. item = Inr x \<and> t = [x] else t = [])" for c item xs ys
    by (drule pushIf_Inr) auto
  from step [OF p1] obtain t1 where t1: "f1 = f0 @ t1"
    "if truthy (baseFeePerGas h) then \<exists>x. encodeInt (baseFeePerGas h) = Inr x \<and> t1 = [x] else t1 = []"
    by blast
  from step [OF p2] obtain t2 where t2: "f2 = f1 @ t2"
    "if truthy (withdrawalsRoot h) then \<exists>x. cleanHex (withdrawalsRoot h) = Inr x \<and> t2 = [x] else t2 = []"
    by blast
  from step [OF p3] obtain t3 where t3: "f3 = f2 @ t3"
    "if truthy (blobGasUsed h) then \<exists>x. encodeInt (blobGasUsed h) = Inr x \<and> t3 = [x] else t3 = []"
    by blast
  from step [OF p4] obtain t4 where t4: "f4 = f3 @ t4"
    "if excessBlobGas h \<noteq> JUndefined then \<exists>x. encodeInt (excessBlobGas h) = Inr x \<and> t4 = [x] else t4 = []"
    by blast
  from step [OF p5] obtain t5 where t5: "f5 = f4 @ t5"
    "if truthy (parentBeaconBlockRoot h) then \<exists>x. cleanHex (parentBeaconBlockRoot h) = Inr x \<and> t5 = [x] else t5 = []"
    by blast
  from step [OF p6] obtain t6 where t6: "fs = f5 @ t6"
    "if truthy (requestsHash h) then \<exists>x. cleanHex (requestsHash h) = Inr x \<and> t6 = [x] else t6 = []"
    by blast
  from t1(1) t2(1) t3(1) t4(1) t5(1) t6(1) have "fs = f0 @ t1 @ t2 @ t3 @ t4 @ t5 @ t6" by simp
  with f0 t1(2) t2(2) t3(2) t4(2) t5(2) t6(2) show ?thesis by blast
qed

lemma headerFields_integer_items:
  assumes "headerFields h = Inr fs"
  shows "encodeInt (difficulty h) = Inr (fs ! 7)" and "encodeInt (number h) = Inr (fs ! 8)"
    and "encodeInt (gasLimit h) = Inr (fs ! 9)" and "encodeInt (gasUsed h) = Inr (fs ! 10)"
    and "encodeInt (timestamp h) = Inr (fs ! 11)"
    and "truthy (baseFeePerGas h) \<Longrightarrow> encodeInt (baseFeePerGas h) = Inr (fs ! 15)"
    and "truthy (blobGasUsed h) \<Longrightarrow> \<exists>item. item \<in> set (drop 15 fs) \<and> encodeInt (blobGasUsed h) = Inr item"
    and "excessBlobGas h \<noteq> JUndefined \<Longrightarrow>
           \<exists>item. item \<in> set (drop 15 fs) \<and> encodeInt (excessBlobGas h) = Inr item"
proof -
  from headerFields_shape [OF assms] obtain f0 t1 t2 t3 t4 t5 t6 where
    f0: "baseFields h = Inr f0" and fs: "fs = f0 @ t1 @ t2 @ t3 @ t4 @ t5 @ t6"
    and t1: "if truthy (baseFeePerGas h) then \<exists>x. encodeInt (baseFeePerGas h) = Inr x \<and> t1 = [x] else t1 = []"
    and t3: "if truthy (blobGasUsed h) then \<exists>x. encodeInt (blobGasUsed h) = Inr x \<and> t3 = [x] else t3 = []"
    and t4: "if excessBlobGas h \<noteq> JUndefined then \<exists>x. encodeInt (excessBlobGas h) = Inr x \<and> t4 = [x] else t4 = []"
    by blast
  note b = baseFields_items [OF f0]
  from b fs show "encodeInt (difficulty h) = Inr (fs ! 7)" "encodeInt (number h) = Inr (fs ! 8)"
    "encodeInt (gasLimit h) = Inr (fs ! 9)" "encodeInt (gasUsed h) = Inr (fs ! 10)"
    "encodeInt (timestamp h) = Inr (fs ! 11)"
    by (simp_all add: nth_append)
  from b(1) fs have d: "drop 15 fs = t1 @ t2 @ t3 @ t4 @ t5 @ t6" by simp
  show "truthy (baseFeePerGas h) \<Longrightarrow> encodeInt (baseFeePerGas h) = Inr (fs ! 15)"
    using t1 b(1) fs by (auto simp: nth_append)
  show "truthy (blobGasUsed h) \<Longrightarrow> \<exists>item. item \<in> set (drop 15 fs) \<and> encodeInt (blobGasUsed h) = Inr item"
    using t3 d by auto
  show "excessBlobGas h \<noteq> JUndefined \<Longrightarrow>
           \<exists>item. item \<in> set (drop 15 fs) \<and> encodeInt (excessBlobGas h) = Inr item"
    using t4 d by auto
qed

section \<open>The block hash check\<close>

lemma block_hash_mismatch_iff:
  "(fst (generateStorageProof P net opts) = Inl (BlockHashMismatchError expected computed) \<longleftrightarrow>
      (\<exists>h rlp m t.
         getBlock (net (o_rpc opts)) (o_blockNumber opts) = Inr h \<and>
         getRlpBlockHeader P (net (o_rpc opts)) (o_blockNumber opts) h = (Inr (rlp, m), t) \<and>
         keccak256 P (JString rlp) = Inr computed \<and>
         expected = hash h \<and> JString computed \<noteq> hash h))"
proof
  let ?c = "net (o_rpc opts)" and ?n = "o_blockNumber opts"
  assume a: "fst (generateStorageProof P net opts) = Inl (BlockHashMismatchError expected computed)"
  obtain h where h: "getBlock ?c ?n = Inr h"
    using a gen_getBlock_fails [where net = net and opts = opts and P = P, OF refl refl]
    by (cases "getBlock ?c ?n") auto
  obtain x t1 where x: "getRlpBlockHeader P ?c ?n h = (x, t1)" by (cases "getRlpBlockHeader P ?c ?n h")
  obtain rlp m where rlp: "x = Inr (rlp, m)"
  proof (cases x)
    case (Inl e)
    from gen_resolve_fails [where net = net and opts = opts, OF refl refl h x [unfolded Inl]] a
    have "e = BlockHashMismatchError expected computed" by simp
    with getRlpBlockHeader_error_pair [OF x [unfolded Inl]] show ?thesis by simp
  next
    case (Inr p)
    with that show ?thesis by (cases p) auto
  qed
  note x = x [unfolded rlp]
  obtain k where k: "keccak256 P (JString rlp) = Inr k"
  proof (cases "keccak256 P (JString rlp)")
    case (Inl e)
    from gen_keccak_fails [where net = net and opts = opts, OF refl refl h x Inl] a
    have "e = BlockHashMismatchError expected computed" by simp
    with keccak256_error [OF Inl] show ?thesis by simp
  next
    case (Inr k)
    with that show ?thesis by simp
  qed
  have ne: "JString k \<noteq> hash h"
  proof
    assume eq: "JString k = hash h"
    obtain y t2 where y: "getStorageAndAccountProof P ?c (o_account opts) (o_slot opts) ?n = (y, t2)"
      by (cases "getStorageAndAccountProof P ?c (o_account opts) (o_slot opts) ?n")
    show False
    proof (cases y)
      case (Inl e)
      from gen_proof_fails [where net = net and opts = opts, OF refl refl h x k eq y [unfolded Inl]] a
      have "e = BlockHashMismatchError expected computed" by simp
      with getStorageAndAccountProof_error_pair [OF y [unfolded Inl]] show False by auto
    next
      case (Inr q)
      obtain root rap rsp sv where q: "q = (root, rap, rsp, sv)" by (cases q) auto
      note y' = y [unfolded Inr q]
      show False
      proof (cases "JString root = stateRoot h")
        case False
        from gen_root_differs [where net = net and opts = opts, OF refl refl h x k eq y' False] a
        show False by simp
      next
        case True
        from gen_roots_agree [where net = net and opts = opts, OF refl refl h x k eq y' True] a
        show False
          by (auto simp: bindE_def split: sum.splits dest: toHex_error numberToHex_error)
      qed
    qed
  qed
  from gen_hash_differs [where net = net and opts = opts, OF refl refl h x k ne] a
  have "expected = hash h" "computed = k" by simp_all
  with h x k ne show "\<exists>h rlp m t.
         getBlock (net (o_rpc opts)) (o_blockNumber opts) = Inr h \<and>
         getRlpBlockHeader P (net (o_rpc opts)) (o_blockNumber opts) h = (Inr (rlp, m), t) \<and>
         keccak256 P (JString rlp) = Inr computed \<and>
         expected = hash h \<and> JString computed \<noteq> hash h" by blast
next
  assume "\<exists>h rlp m t.
         getBlock (net (o_rpc opts)) (o_blockNumber opts) = Inr h \<and>
         getRlpBlockHeader P (net (o_rpc opts)) (o_blockNumber opts) h = (Inr (rlp, m), t) \<and>
         keccak256 P (JString rlp) = Inr computed \<and>
         expected = hash h \<and> JString computed \<noteq> hash h"
  then obtain h rlp m t where
    "getBlock (net (o_rpc opts)) (o_blockNumber opts) = Inr h"
    "getRlpBlockHeader P (net (o_rpc opts)) (o_blockNumber opts) h = (Inr (rlp, m), t)"
    "keccak256 P (JString rlp) = Inr computed" "expected = hash h" "JString computed \<noteq> hash h"
    by blast
  from gen_hash_differs [where net = net and opts = opts, OF refl refl this(1,2,3,5)] this(4)
  show "fst (generateStorageProof P net opts) = Inl (BlockHashMismatchError expected computed)"
    by simp
qed

lemma gen_proceeds:
  assumes "getBlock (net (o_rpc opts)) (o_blockNumber opts) = Inr h"
    and "getRlpBlockHeader P (net (o_rpc opts)) (o_blockNumber opts) h = (Inr (rlp, m), t)"
    and "keccak256 P (JString rlp) = Inr k" and "JString k = hash h"
  shows "snd (generateStorageProof P net opts) =
     CallGetBlock (o_blockNumber opts) # t @
     snd (getStorageAndAccountProof P (net (o_rpc opts)) (o_account opts) (o_slot opts)
       (o_blockNumber opts))"
proof -
  obtain y t2 where y: "getStorageAndAccountProof P (net (o_rpc opts)) (o_account opts)
      (o_slot opts) (o_blockNumber opts) = (y, t2)"
    by (cases "getStorageAndAccountProof P (net (o_rpc opts)) (o_account opts) (o_slot opts)
      (o_blockNumber opts)")
  note base = assms(1,2,3,4)
  show ?thesis
  proof (cases y)
    case (Inl e)
    from gen_proof_fails [where net = net and opts = opts, OF refl refl base y [unfolded Inl]] y
    show ?thesis by simp
  next
    case (Inr q)
    obtain root rap rsp sv where q: "q = (root, rap, rsp, sv)" by (cases q) auto
    note y' = y [unfolded Inr q]
    show ?thesis
    proof (cases "JString root = stateRoot h")
      case False
      from gen_root_differs [where net = net and opts = opts, OF refl refl base y' False] y'
      show ?thesis by simp
    next
      case True
      from gen_roots_agree [where net = net and opts = opts, OF refl refl base y' True] y'
      show ?thesis by simp
    qed
  qed
qed

section \<open>The requests a call sends\<close>

lemma getRlpBlockHeader_trace:
  "call \<in> set (snd (getRlpBlockHeader P c bn h)) \<Longrightarrow> \<exists>p. call = CallDebugGetRawHeader p"
  by (auto simp: getRlpBlockHeader_def Let_def split: sum.splits)

lemma getStorageAndAccountProof_trace:
  "call \<in> set (snd (getStorageAndAccountProof P c a s bn)) \<Longrightarrow>
     \<exists>k. numberToHex (Some 32) s = Inr k \<and> call = CallGetProof a [k] bn"
  by (auto simp: getStorageAndAccountProof_def split: sum.splits)

lemma gen_trace:
  "\<exists>t1 t2. snd (generateStorageProof P net opts) = CallGetBlock (o_blockNumber opts) # t1 @ t2 \<and>
     set t1 \<subseteq> set (snd (getRlpBlockHeader P (net (o_rpc opts)) (o_blockNumber opts) h)) \<and>
     set t2 \<subseteq> set (snd (getStorageAndAccountProof P (net (o_rpc opts)) (o_account opts)
        (o_slot opts) (o_blockNumber opts)))"
  if "getBlock (net (o_rpc opts)) (o_blockNumber opts) = Inr h"
proof (cases rule: gen_outcome [where P = P and net = net and opts = opts])
  case (block_rejected m)
  with that show ?thesis by simp
next
  case (resolve_throws h' e t1)
  with that have "snd (generateStorageProof P net opts) = CallGetBlock (o_blockNumber opts) # t1 @ []"
    "set t1 \<subseteq> set (snd (getRlpBlockHeader P (net (o_rpc opts)) (o_blockNumber opts) h))"
    by simp_all
  then show ?thesis by (metis empty_set empty_subsetI)
next
  case (hash_throws h' rlp m t1 e)
  with that have "snd (generateStorageProof P net opts) = CallGetBlock (o_blockNumber opts) # t1 @ []"
    "set t1 \<subseteq> set (snd (getRlpBlockHeader P (net (o_rpc opts)) (o_blockNumber opts) h))"
    by simp_all
  then show ?thesis by (metis empty_set empty_subsetI)
next
  case (hash_differs h' rlp m t1 k)
  with that have "snd (generateStorageProof P net opts) = CallGetBlock (o_blockNumber opts) # t1 @ []"
    "set t1 \<subseteq> set (snd (getRlpBlockHeader P (net (o_rpc opts)) (o_blockNumber opts) h))"
    by simp_all
  then show ?thesis by (metis empty_set empty_subsetI)
next
  case (proof_throws h' rlp m t1 k e t2)
  with that have "snd (generateStorageProof P net opts) = CallGetBlock (o_blockNumber opts) # t1 @ t2"
    "set t1 \<subseteq> set (snd (getRlpBlockHeader P (net (o_rpc opts)) (o_blockNumber opts) h))"
    "set t2 \<subseteq> set (snd (getStorageAndAccountProof P (net (o_rpc opts)) (o_account opts)
        (o_slot opts) (o_blockNumber opts)))"
    by simp_all
  then show ?thesis by blast
next
  case (root_differs h' rlp m t1 k root rap rsp sv t2)
  with that have "snd (generateStorageProof P net opts) = CallGetBlock (o_blockNumber opts) # t1 @ t2"
    "set t1 \<subseteq> set (snd (getRlpBlockHeader P (net (o_rpc opts)) (o_blockNumber opts) h))"
    "set t2 \<subseteq> set (snd (getStorageAndAccountProof P (net (o_rpc opts)) (o_account opts)
        (o_slot opts) (o_blockNumber opts)))"
    by simp_all
  then show ?thesis by blast
next
  case (format_throws h' rlp m t1 k root rap rsp sv t2 e)
  with that have "snd (generateStorageProof P net opts) = CallGetBlock (o_blockNumber opts) # t1 @ t2"
    "set t1 \<subseteq> set (snd (getRlpBlockHeader P (net (o_rpc opts)) (o_blockNumber opts) h))"
    "set t2 \<subseteq> set (snd (getStorageAndAccountProof P (net (o_rpc opts)) (o_account opts)
        (o_slot opts) (o_blockNumber opts)))"
    by simp_all
  then show ?thesis by blast
next
  case (returns h' rlp m t1 k root rap rsp sv t2 bn sl)
  with that have "snd (generateStorageProof P net opts) = CallGetBlock (o_blockNumber opts) # t1 @ t2"
    "set t1 \<subseteq> set (snd (getRlpBlockHeader P (net (o_rpc opts)) (o_blockNumber opts) h))"
    "set t2 \<subseteq> set (snd (getStorageAndAccountProof P (net (o_rpc opts)) (o_account opts)
        (o_slot opts) (o_blockNumber opts)))"
    by simp_all
  then show ?thesis by blast
qed

lemma gen_proof_request:
  assumes "CallGetProof a ks n \<in> set (snd (generateStorageProof P net opts))"
  shows "a = o_account opts \<and> n = o_blockNumber opts \<and>
     (\<exists>k. numberToHex (Some 32) (o_slot opts) = Inr k \<and> ks = [k])"
proof (cases "getBlock (net (o_rpc opts)) (o_blockNumber opts)")
  case (Inl m)
  from gen_getBlock_fails [where net = net and opts = opts and P = P, OF refl refl Inl] assms
  show ?thesis by simp
next
  case (Inr h)
  from gen_trace [where net = net and opts = opts and P = P, OF Inr] obtain t1 t2 where
    t: "snd (generateStorageProof P net opts) = CallGetBlock (o_blockNumber opts) # t1 @ t2"
    "set t1 \<subseteq> set (snd (getRlpBlockHeader P (net (o_rpc opts)) (o_blockNumber opts) h))"
    "set t2 \<subseteq> set (snd (getStorageAndAccountProof P (net (o_rpc opts)) (o_account opts)
        (o_slot opts) (o_blockNumber opts)))"
    by blast
  from assms t(1) have "CallGetProof a ks n \<in> set t1 \<or> CallGetProof a ks n \<in> set t2" by auto
  then show ?thesis
  proof
    assume "CallGetProof a ks n \<in> set t1"
    with t(2) getRlpBlockHeader_trace [of "CallGetProof a ks n" P] show ?thesis by blast
  next
    assume "CallGetProof a ks n \<in> set t2"
    with t(3) getStorageAndAccountProof_trace [of "CallGetProof a ks n" P] show ?thesis by blast
  qed
qed

lemma gen_slot_padded:
  assumes "fst (generateStorageProof P net opts) = Inr r"
  shows "0 \<le> o_slot opts \<and> o_slot opts < 2 ^ 256 \<and>
     p_slot r = ''0x'' @ replicate (64 - length (hex_digits (nat (o_slot opts)))) CHR ''0''
                   @ hex_digits (nat (o_slot opts)) \<and>
     length (p_slot r) = 66 \<and> canonical_hex (p_slot r) \<and>
     (\<exists>bs. hex_bytes (p_slot r) = Some bs \<and> length bs = 32 \<and> int (be_value bs) = o_slot opts) \<and>
     (o_slot opts = 0 \<longrightarrow> p_slot r = ''0x'' @ replicate 64 CHR ''0'') \<and>
     (\<exists>t1. snd (generateStorageProof P net opts) =
        CallGetBlock (o_blockNumber opts) # t1 @
        [CallGetProof (o_account opts) [p_slot r] (o_blockNumber opts)])"
proof -
  let ?n = "nat (o_slot opts)"
  let ?s = "replicate (64 - length (hex_digits ?n)) CHR ''0'' @ hex_digits ?n"
  from gen_success [OF assms] obtain h rlp m t1 k root rap rsp sv t2 bn sl where
    s: "getStorageAndAccountProof P (net (o_rpc opts)) (o_account opts) (o_slot opts)
        (o_blockNumber opts) = (Inr (root, rap, rsp, sv), t2)"
    and sl: "numberToHex (Some 32) (o_slot opts) = Inr sl"
    and tr: "snd (generateStorageProof P net opts) = CallGetBlock (o_blockNumber opts) # t1 @ t2"
    and r: "p_slot r = sl"
    by auto
  from numberToHex_32_range [OF sl] have range: "0 \<le> o_slot opts" "o_slot opts < 2 ^ 256" by simp_all
  from numberToHex_32 [OF range] sl have eq: "sl = ''0x'' @ ?s"
    and len: "length (hex_digits ?n) \<le> 64" by simp_all
  from padded_slot [OF len] obtain bs where
    p: "length ?s = 64" "list_all lower_hex ?s" "pairs ?s = Some bs" "length bs = 32" "be_value bs = ?n"
    by blast
  from getStorageAndAccountProof_success [OF s] sl have t2: "t2 = [CallGetProof (o_account opts) [sl] (o_blockNumber opts)]"
    by auto
  have zero: "o_slot opts = 0 \<Longrightarrow> ?s = replicate 64 CHR ''0''"
  proof -
    assume "o_slot opts = 0"
    then have "?s = replicate 63 CHR ''0'' @ ''0''"
      by (simp add: hex_digits.simps hexchar_0)
    also have "\<dots> = replicate (Suc 63) CHR ''0''"
      by (simp only: replicate_append_same replicate_Suc)
    also have "Suc 63 = 64" by simp
    finally show ?thesis .
  qed
  have "canonical_hex (''0x'' @ ?s)"
    using p(1,2) by (simp add: canonical_hex_def lowercase_hex_def)
  moreover have "hex_bytes (''0x'' @ ?s) = Some bs" using p(3) by (simp add: hex_bytes_def)
  moreover have "length (''0x'' @ ?s) = 66" using p(1) by simp
  ultimately show ?thesis
    using range r eq p(4,5) zero tr t2 by auto
qed


section \<open>The example chain, evaluated\<close>

lemma hexchar_simps:
  "hexchar 0 = CHR ''0''" "hexchar 1 = CHR ''1''" "hexchar (Suc 0) = CHR ''1''"
  "hexchar 2 = CHR ''2''" "hexchar 3 = CHR ''3''"
  "hexchar 4 = CHR ''4''" "hexchar 5 = CHR ''5''" "hexchar 6 = CHR ''6''" "hexchar 7 = CHR ''7''"
  "hexchar 8 = CHR ''8''" "hexchar 9 = CHR ''9''" "hexchar 10 = CHR ''a''" "hexchar 11 = CHR ''b''"
  "hexchar 12 = CHR ''c''" "hexchar 13 = CHR ''d''" "hexchar 14 = CHR ''e''" "hexchar 15 = CHR ''f''"
  by code_simp+

lemma ex_baseFields:
  "baseFields example_header = Inr (take 15 example_fields_emitted)"
  by (simp add: baseFields_def example_header_def example_fields_emitted_def example_stateRoot_def
      encodeInt_def toString16_def strip0x_def hex_digits.simps hexchar_simps)

lemma ex_headerFields:
  "headerFields example_header = Inr example_fields_emitted"
  unfolding headerFields_def ex_baseFields
  by (simp add: bindE_def pushIf_def example_header_def example_fields_emitted_def encodeInt_def
      toString16_def strip0x_def hex_digits.simps hexchar_simps)

lemma ex_headerFields_string:
  "headerFields (example_header\<lparr>blobGasUsed := JString ''0x0''\<rparr>) = Inr example_fields_full"
proof -
  have b: "baseFields (example_header\<lparr>blobGasUsed := JString ''0x0''\<rparr>) = baseFields example_header"
    by (simp add: baseFields_def)
  have t: "trim ''0x0'' = ''0x0''" by (simp add: trim_def is_ws_def)
  have p: "parse_nonempty 16 ''0'' = Some 0" by (simp add: parse_nonempty_def digit_val_def)
  have e: "StringToBigInt ''0x0'' = Some 0"
    by (simp add: StringToBigInt_def t p)
  show ?thesis
    unfolding headerFields_def b ex_baseFields
    by (simp add: e bindE_def pushIf_def example_header_def example_fields_emitted_def
        example_fields_full_def encodeInt_def
        toString16_def strip0x_def hex_digits.simps hexchar_simps)
qed

lemma ex_toHex_number: "numberToHex None 19426587 = Inr ''0x1286d1b''"
  by (simp add: numberToHex_def toString16_def hex_digits.simps hexchar_simps)

lemma ex_slot_key: "numberToHex (Some 32) 0 = Inr example_slot_key"
proof -
  have "hex_digits 0 = ''0''" by (simp add: hex_digits.simps hexchar_simps)
  with numberToHex_32(1) [of 0] have "numberToHex (Some 32) 0 = Inr (''0x'' @ replicate 63 CHR ''0'' @ ''0'')"
    by simp
  also have "replicate 63 CHR ''0'' @ ''0'' = replicate (Suc 63) CHR ''0''"
    by (simp only: replicate_append_same replicate_Suc)
  also have "Suc 63 = 64" by simp
  finally show ?thesis by (simp add: example_slot_key_def)
qed

lemma ex_slot_value: "numberToHex None 1 = Inr ''0x1''"
  by (simp add: numberToHex_def toString16_def hex_digits.simps hexchar_simps)

lemma ex_rlp_distinct: "example_rlp_emitted \<noteq> example_rlp"
proof
  assume "example_rlp_emitted = example_rlp"
  then have "length example_rlp_emitted = length example_rlp" by simp
  then show False by (simp add: example_rlp_emitted_def example_rlp_def)
qed

lemma ex_anode_distinct: "example_anode \<noteq> example_rlp" "example_anode \<noteq> example_rlp_emitted"
proof -
  have "length example_anode \<noteq> length example_rlp"
    by (simp add: example_anode_def example_rlp_def)
  then show "example_anode \<noteq> example_rlp" by auto
  have "length example_anode \<noteq> length example_rlp_emitted"
    by (simp add: example_anode_def example_rlp_emitted_def)
  then show "example_anode \<noteq> example_rlp_emitted" by auto
qed

lemma ex_snode_distinct:
  "example_snode \<noteq> example_anode" "example_snode \<noteq> example_rlp"
  "example_snode \<noteq> example_rlp_emitted"
proof -
  have "length xs \<noteq> 74 \<Longrightarrow> example_snode \<noteq> xs" for xs
    by (auto simp: example_snode_def)
  then show "example_snode \<noteq> example_anode" "example_snode \<noteq> example_rlp"
    "example_snode \<noteq> example_rlp_emitted"
    by (simp_all add: example_anode_def example_rlp_def example_rlp_emitted_def)
qed

lemma ex_keccak:
  "keccak256 example_prims (JString example_rlp) = Inr example_hash"
  "keccak256 example_prims (JString example_rlp_emitted) = Inr example_hash_emitted"
  "keccak256 example_prims (JString example_anode) = Inr example_stateRoot"
  "keccak256 example_prims (JString example_snode) = Inr example_storageRoot"
  by (simp_all add: keccak256.simps example_prims_def ex_rlp_distinct ex_anode_distinct
      ex_snode_distinct)

lemma ex_lists_distinct:
  "[example_anode] \<noteq> example_fields_emitted" "[example_snode] \<noteq> example_fields_emitted"
proof -
  have "length xs \<noteq> 19 \<Longrightarrow> xs \<noteq> example_fields_emitted" for xs
    by (auto simp: example_fields_emitted_def)
  then show "[example_anode] \<noteq> example_fields_emitted" "[example_snode] \<noteq> example_fields_emitted"
    by simp_all
qed

lemma ex_toRlp:
  "toRlp example_prims example_fields_emitted = Inr example_rlp_emitted"
  "toRlp example_prims [example_anode] = Inr example_rlpAccountProof"
  "toRlp example_prims [example_snode] = Inr example_rlpStorageProof"
  by (simp_all add: toRlp_def example_prims_def ex_lists_distinct ex_snode_distinct)

lemma ex_encode: "encodeBlockHeaderToRlp example_prims example_header = Inr example_rlp_emitted"
  by (simp add: encodeBlockHeaderToRlp_def ex_headerFields bindE_def ex_toRlp)

lemma ex_resolve_raw:
  "getRlpBlockHeader example_prims example_client 19426587 example_header =
     (Inr (example_rlp, Method_debug_getRawHeader), [CallDebugGetRawHeader ''0x1286d1b''])"
  unfolding getRlpBlockHeader_def toHex.simps ex_toHex_number
  by (simp add: example_client_def)

lemma ex_resolve_manual:
  "getRlpBlockHeader example_prims example_client_manual 19426587 example_header =
     (Inr (example_rlp_emitted, Method_manual), [CallDebugGetRawHeader ''0x1286d1b''])"
  unfolding getRlpBlockHeader_def toHex.simps ex_toHex_number ex_encode
  by (simp add: example_client_manual_def example_client_def bindE_def)

lemma ex_getProof:
  "getProof example_client example_account [example_slot_key] 19426587 = Inr example_proof"
  "getProof example_client_manual example_account [example_slot_key] 19426587 = Inr example_proof"
  by (simp_all add: example_client_manual_def example_client_def)

lemma ex_storage:
  "getStorageAndAccountProof example_prims example_client example_account 0 19426587 =
     (Inr (example_stateRoot, example_rlpAccountProof, example_rlpStorageProof, ''0x1''),
      [CallGetProof example_account [example_slot_key] 19426587])"
  unfolding getStorageAndAccountProof_def ex_slot_key
  by (simp add: ex_getProof example_proof_def index0_def ex_keccak ex_toRlp bindE_def ex_slot_value)

lemma ex_endpoints:
  "example_net (o_rpc example_options) = example_client"
  "example_net (o_rpc example_options_manual) = example_client_manual"
  "o_blockNumber example_options = 19426587" "o_blockNumber example_options_manual = 19426587"
  "o_account example_options = example_account" "o_slot example_options = 0"
  "example_net (o_rpc example_options_stale) = example_client_stale"
  "o_blockNumber example_options_stale = 19426587"
  "o_account example_options_stale = example_account" "o_slot example_options_stale = 0"
  by (simp_all add: example_net_def example_options_def example_options_manual_def
      example_options_stale_def)

lemma ex_getBlock:
  "getBlock example_client 19426587 = Inr example_header"
  "getBlock example_client_manual 19426587 = Inr example_header"
  "getBlock example_client_stale 19426587 = Inr example_header"
  by (simp_all add: example_client_manual_def example_client_stale_def example_client_def)

lemma ex_header_fields:
  "hash example_header = JString example_hash" "stateRoot example_header = JString example_stateRoot"
  "number example_header = JBigInt 19426587" "sendRoot example_header = None"
  by (simp_all add: example_header_def)

lemma ex_hash_distinct: "example_hash_emitted \<noteq> example_hash"
  by (simp add: example_hash_emitted_def example_hash_def)

lemma ex_run:
  "generateStorageProof example_prims example_net example_options = (Inr example_result, example_trace)"
proof -
  note g = gen_roots_agree [where net = example_net and opts = example_options and P = example_prims,
      OF ex_endpoints(1) [symmetric] ex_endpoints(3) [symmetric] ex_getBlock(1) ex_resolve_raw ex_keccak(1)]
  have s: "getStorageAndAccountProof example_prims example_client (o_account example_options)
      (o_slot example_options) 19426587 =
     (Inr (example_stateRoot, example_rlpAccountProof, example_rlpStorageProof, ''0x1''),
      [CallGetProof example_account [example_slot_key] 19426587])"
    by (simp add: ex_endpoints ex_storage)
  from g [OF _ s] show ?thesis
    by (simp add: ex_header_fields ex_toHex_number ex_slot_key ex_endpoints bindE_def
        example_result_def example_trace_def copySendRoot_def)
qed

lemma ex_run_manual:
  "generateStorageProof example_prims example_net example_options_manual =
     (Inl (BlockHashMismatchError (JString example_hash) example_hash_emitted),
      [CallGetBlock 19426587, CallDebugGetRawHeader ''0x1286d1b''])"
  using gen_hash_differs [where net = example_net and opts = example_options_manual and P = example_prims,
      OF ex_endpoints(2) [symmetric] ex_endpoints(4) [symmetric] ex_getBlock(2) ex_resolve_manual ex_keccak(2)]
  by (simp add: ex_header_fields ex_hash_distinct ex_endpoints)

lemma ex_resolve_stale:
  "getRlpBlockHeader example_prims example_client_stale 19426587 example_header =
     (Inr (example_rlp, Method_debug_getRawHeader), [CallDebugGetRawHeader ''0x1286d1b''])"
  unfolding getRlpBlockHeader_def toHex.simps ex_toHex_number
  by (simp add: example_client_stale_def example_client_def)

lemma ex_storage_stale:
  "getStorageAndAccountProof example_prims example_client_stale example_account 0 19426587 =
     (Inr (example_storageRoot, example_rlpStorageProof, example_rlpStorageProof, ''0x1''),
      [CallGetProof example_account [example_slot_key] 19426587])"
  unfolding getStorageAndAccountProof_def ex_slot_key
  by (simp add: example_client_stale_def example_proof_def index0_def ex_keccak ex_toRlp bindE_def
      ex_slot_value)

lemma ex_root_distinct: "example_storageRoot \<noteq> example_stateRoot"
  by (simp add: example_storageRoot_def example_stateRoot_def)

lemma ex_run_stale:
  "generateStorageProof example_prims example_net example_options_stale =
     (Inl (StateRootMismatchError (JString example_stateRoot) example_storageRoot), example_trace)"
proof -
  have s: "getStorageAndAccountProof example_prims example_client_stale (o_account example_options_stale)
      (o_slot example_options_stale) 19426587 =
     (Inr (example_storageRoot, example_rlpStorageProof, example_rlpStorageProof, ''0x1''),
      [CallGetProof example_account [example_slot_key] 19426587])"
    by (simp add: ex_endpoints ex_storage_stale)
  from gen_root_differs [where net = example_net and opts = example_options_stale and P = example_prims,
      OF ex_endpoints(7) [symmetric] ex_endpoints(8) [symmetric] ex_getBlock(3) ex_resolve_stale
        ex_keccak(1) _ s]
  show ?thesis
    by (simp add: ex_header_fields ex_root_distinct ex_endpoints example_trace_def)
qed

section \<open>Canonical hexadecimal\<close>

lemma keccak256_canonical: "prims_canonical P \<Longrightarrow> keccak256 P v = Inr d \<Longrightarrow> canonical_hex d"
  by (cases v) (auto simp: prims_canonical_def keccak256.simps split: option.splits)

lemma toRlp_canonical: "prims_canonical P \<Longrightarrow> toRlp P xs = Inr d \<Longrightarrow> canonical_hex d"
  by (auto simp: prims_canonical_def toRlp_def split: option.splits)

lemma numberToHex_32_canonical:
  assumes "numberToHex (Some 32) v = Inr s"
  shows "canonical_hex s"
proof -
  from numberToHex_32_range [OF assms] have range: "0 \<le> v" "v < 2 ^ 256" by simp_all
  from numberToHex_32 [OF range] assms
  have eq: "s = ''0x'' @ replicate (64 - length (hex_digits (nat v))) CHR ''0'' @ hex_digits (nat v)"
    and len: "length (hex_digits (nat v)) \<le> 64" by simp_all
  from padded_slot(1,2) [OF len] eq show ?thesis
    by (simp add: canonical_hex_def lowercase_hex_def)
qed

lemma getRlpBlockHeader_source:
  assumes "getRlpBlockHeader P c bn h = (Inr (rlp, m), t)"
  shows "(\<exists>fs. toRlp P fs = Inr rlp) \<or> (\<exists>p. debug_getRawHeader c p = Inr rlp)"
proof -
  from assms have "fst (getRlpBlockHeader P c bn h) = Inr (rlp, m)" by simp
  then show ?thesis
    unfolding getRlpBlockHeader_fst
    by (auto simp: manualHeader_def encodeBlockHeaderToRlp_def bindE_def split: sum.splits)
qed

lemma list_all_replicate: "list_all P (replicate n x) = (n = 0 \<or> P x)"
  by (induction n) auto

lemma lower_hex_literal:
  "lower_hex CHR ''0''" "lower_hex CHR ''1''" "lower_hex CHR ''2''" "lower_hex CHR ''3''"
  "lower_hex CHR ''4''" "lower_hex CHR ''5''" "lower_hex CHR ''6''" "lower_hex CHR ''7''"
  "lower_hex CHR ''8''" "lower_hex CHR ''9''" "lower_hex CHR ''a''" "lower_hex CHR ''b''"
  "lower_hex CHR ''c''" "lower_hex CHR ''d''" "lower_hex CHR ''e''" "lower_hex CHR ''f''"
  by (simp_all add: lower_hex_def)

lemma ex_canonical:
  "canonical_hex example_hash" "canonical_hex example_hash_emitted"
  "canonical_hex example_stateRoot" "canonical_hex example_storageRoot"
  "canonical_hex example_rlp_emitted" "canonical_hex example_rlpAccountProof"
  "canonical_hex example_rlpStorageProof"
  by (simp_all add: canonical_hex_def lowercase_hex_def example_hash_def
      example_hash_emitted_def example_stateRoot_def example_storageRoot_def
      example_rlp_emitted_def example_rlpAccountProof_def example_rlpStorageProof_def
      list_all_replicate lower_hex_literal)

lemma ex_prims_canonical: "prims_canonical example_prims"
  by (auto simp: prims_canonical_def example_prims_def ex_canonical split: if_splits)

lemma ex_run_sendRoot:
  "generateStorageProof example_prims (example_net_sendRoot v) example_options =
     (Inr (example_result\<lparr>p_sendRoot := if truthy v then Some v else None\<rparr>), example_trace)"
proof -
  let ?h = "example_header\<lparr>sendRoot := Some v\<rparr>"
  let ?c = "example_net_sendRoot v (o_rpc example_options)"
  have b: "getBlock ?c 19426587 = Inr ?h" by (simp add: example_net_sendRoot_def)
  have r: "getRlpBlockHeader example_prims ?c 19426587 ?h =
     (Inr (example_rlp, Method_debug_getRawHeader), [CallDebugGetRawHeader ''0x1286d1b''])"
    unfolding getRlpBlockHeader_def toHex.simps ex_toHex_number
    by (simp add: example_net_sendRoot_def example_client_def)
  have s: "getStorageAndAccountProof example_prims ?c (o_account example_options)
      (o_slot example_options) 19426587 =
     (Inr (example_stateRoot, example_rlpAccountProof, example_rlpStorageProof, ''0x1''),
      [CallGetProof example_account [example_slot_key] 19426587])"
    unfolding getStorageAndAccountProof_def ex_endpoints ex_slot_key
    by (simp add: example_net_sendRoot_def ex_getProof example_proof_def index0_def ex_keccak
        ex_toRlp bindE_def ex_slot_value)
  from gen_roots_agree [where net = "example_net_sendRoot v" and opts = example_options
      and P = example_prims, OF refl ex_endpoints(3) [symmetric] b r ex_keccak(1) _ s]
  show ?thesis
    by (simp add: ex_header_fields ex_toHex_number ex_slot_key ex_endpoints bindE_def
        example_result_def example_trace_def copySendRoot_def)
qed

section \<open>The claims of the specification\<close>

text \<open>
  C1. The specification: after the fifteen base fields the encoder lists exactly the optional
  trailing fields the source header has, in the fixed order baseFeePerGas, withdrawalsRoot,
  blobGasUsed, excessBlobGas, parentBeaconBlockRoot, requestsHash, and presence is decided
  by availability alone. The code tests five of the six by truthiness and only
  \<open>excessBlobGas\<close> by \<^verbatim>\<open>!== undefined\<close>, so a field that is there and holds zero is left
  out. At the example header, whose \<open>blobGasUsed\<close> and \<open>excessBlobGas\<close> are both the
  bigint zero, the encoder emits nineteen items: \<open>excessBlobGas\<close> is there as the empty
  string and \<open>blobGasUsed\<close> is missing. The same header with \<open>blobGasUsed\<close> as the
  text \<^verbatim>\<open>0x0\<close> gives all twenty. With the nineteen, the header does not hash to the block
  hash, and a call against a node without \<^verbatim>\<open>debug_getRawHeader\<close> ends in a block hash
  mismatch.
\<close>

theorem encoder_omits_zero_blobGasUsed:
  "blobGasUsed example_header = JBigInt 0 \<and> excessBlobGas example_header = JBigInt 0 \<and>
   headerFields example_header = Inr example_fields_emitted \<and>
   length example_fields_emitted = 19 \<and>
   example_fields_full = take 17 example_fields_emitted @ [''0x''] @ drop 17 example_fields_emitted \<and>
   headerFields (example_header\<lparr>blobGasUsed := JString ''0x0''\<rparr>) = Inr example_fields_full \<and>
   fst (generateStorageProof example_prims example_net example_options_manual) =
     Inl (BlockHashMismatchError (JString example_hash) example_hash_emitted)"
  by (simp add: ex_headerFields ex_headerFields_string ex_run_manual)
     (simp add: example_header_def example_fields_emitted_def example_fields_full_def)

text \<open>
  C2. The specification: every integer-typed header field, the trailing ones included, is
  encoded as its minimal big-endian byte string, the value 0 as the empty-string item and
  255 as one byte. \<open>encodeInt\<close> does this with what it is given: zero gives \<^verbatim>\<open>0x\<close> and
  255 gives \<^verbatim>\<open>0xff\<close>. But the encoder hands it \<open>baseFeePerGas\<close> and \<open>blobGasUsed\<close> only
  when the value is truthy, so for these two fields the bigint zero is not encoded as the
  empty-string item: it gets no item at all, and the header is encoded exactly as if the
  field were absent. At the example header both \<open>blobGasUsed\<close> and \<open>excessBlobGas\<close> are
  zero, and the trailing items hold one empty string, that of \<open>excessBlobGas\<close>, not two.
  This is the defect of C1, seen from the encoding of zero.
\<close>

theorem encoder_drops_zero_instead_of_empty_item:
  "encodeInt (JBigInt 0) = Inr ''0x'' \<and> encodeInt (JBigInt 255) = Inr ''0xff'' \<and>
   headerFields (rpcBlock\<lparr>baseFeePerGas := JBigInt 0\<rparr>) =
     headerFields (rpcBlock\<lparr>baseFeePerGas := JUndefined\<rparr>) \<and>
   headerFields (rpcBlock\<lparr>blobGasUsed := JBigInt 0\<rparr>) =
     headerFields (rpcBlock\<lparr>blobGasUsed := JUndefined\<rparr>) \<and>
   blobGasUsed example_header = JBigInt 0 \<and> excessBlobGas example_header = JBigInt 0 \<and>
   encodeInt (blobGasUsed example_header) = Inr ''0x'' \<and>
   headerFields example_header = Inr example_fields_emitted \<and>
   drop 15 example_fields_emitted =
     [''0x07'',
      ''0x56e81f171bcc55a6ff8345e692c0f86e5b48e01b996cadc001622fb5e363b421'',
      ''0x'',
      ''0xff009f228d26ce2afcaca65d94a08d506400415ecfa8dacebf425a25d453485b''] \<and>
   headerFields (example_header\<lparr>excessBlobGas := JUndefined\<rparr>) =
     Inr (take 17 example_fields_emitted @ drop 18 example_fields_emitted) \<and>
   ''0x'' \<notin> set (drop 15 (take 17 example_fields_emitted @ drop 18 example_fields_emitted))"
proof -
  have z: "encodeInt (JBigInt 0) = Inr ''0x''" by (simp add: encodeInt_def)
  have f: "encodeInt (JBigInt 255) = Inr ''0xff''"
    by (simp add: encodeInt_def toString16_def hex_digits_255 strip0x_def)
  have b: "headerFields (rpcBlock\<lparr>baseFeePerGas := JBigInt 0\<rparr>) =
     headerFields (rpcBlock\<lparr>baseFeePerGas := JUndefined\<rparr>)"
    by (simp add: headerFields_def baseFields_def pushIf_def)
  have u: "headerFields (rpcBlock\<lparr>blobGasUsed := JBigInt 0\<rparr>) =
     headerFields (rpcBlock\<lparr>blobGasUsed := JUndefined\<rparr>)"
    by (simp add: headerFields_def baseFields_def pushIf_def)
  have e: "blobGasUsed example_header = JBigInt 0" "excessBlobGas example_header = JBigInt 0"
    by (simp_all add: example_header_def)
  have d: "drop 15 example_fields_emitted =
     [''0x07'',
      ''0x56e81f171bcc55a6ff8345e692c0f86e5b48e01b996cadc001622fb5e363b421'',
      ''0x'',
      ''0xff009f228d26ce2afcaca65d94a08d506400415ecfa8dacebf425a25d453485b'']"
    by (simp add: example_fields_emitted_def)
  have bf: "baseFields (example_header\<lparr>excessBlobGas := JUndefined\<rparr>) = baseFields example_header"
    by (simp add: baseFields_def)
  have h: "headerFields (example_header\<lparr>excessBlobGas := JUndefined\<rparr>) =
     Inr (take 17 example_fields_emitted @ drop 18 example_fields_emitted)"
    unfolding headerFields_def bf ex_baseFields
    by (simp add: bindE_def pushIf_def example_header_def example_fields_emitted_def encodeInt_def
        toString16_def strip0x_def hex_digits.simps hexchar_simps)
  have n: "''0x'' \<notin> set (drop 15 (take 17 example_fields_emitted @ drop 18 example_fields_emitted))"
    by (simp add: example_fields_emitted_def)
  from z f b u e d h n ex_headerFields show ?thesis by (simp add: z)
qed

text \<open>
  C3. \<open>generateStorageProof\<close> raises the block hash mismatch, with given expected and
  computed values, exactly when the header was fetched, its RLP encoding was resolved, the
  Keccak-256 digest of that encoding is the computed value, the hash of the fetched header
  is the expected value, and the two differ. So the error carries both values as they
  are. When the digest is the hash of the fetched header, the call goes on: what it sends
  next are the requests of the proof fetch.
\<close>

theorem generateStorageProof_block_hash_mismatch:
  "(fst (generateStorageProof P net opts) = Inl (BlockHashMismatchError expected computed) \<longleftrightarrow>
      (\<exists>h rlp m t.
         getBlock (net (o_rpc opts)) (o_blockNumber opts) = Inr h \<and>
         getRlpBlockHeader P (net (o_rpc opts)) (o_blockNumber opts) h = (Inr (rlp, m), t) \<and>
         keccak256 P (JString rlp) = Inr computed \<and>
         expected = hash h \<and> JString computed \<noteq> hash h)) \<and>
   (getBlock (net (o_rpc opts)) (o_blockNumber opts) = Inr h' \<and>
    getRlpBlockHeader P (net (o_rpc opts)) (o_blockNumber opts) h' = (Inr (rlp', m'), t') \<and>
    keccak256 P (JString rlp') = Inr k \<and> JString k = hash h' \<longrightarrow>
      snd (generateStorageProof P net opts) =
        CallGetBlock (o_blockNumber opts) # t' @
        snd (getStorageAndAccountProof P (net (o_rpc opts)) (o_account opts) (o_slot opts)
          (o_blockNumber opts)))"
  using block_hash_mismatch_iff [of P net opts expected computed]
    gen_proceeds [of net opts h' P rlp' m' t' k]
  by blast

theorem generateStorageProof_block_hash_mismatch_witness:
  "fst (generateStorageProof example_prims example_net example_options_manual) =
     Inl (BlockHashMismatchError (JString example_hash) example_hash_emitted) \<and>
   keccak256 example_prims (JString example_rlp_emitted) = Inr example_hash_emitted \<and>
   JString example_hash_emitted \<noteq> hash example_header \<and>
   keccak256 example_prims (JString example_rlp) = Inr example_hash \<and>
   JString example_hash = hash example_header \<and>
   snd (generateStorageProof example_prims example_net example_options) =
     [CallGetBlock 19426587, CallDebugGetRawHeader ''0x1286d1b'',
      CallGetProof example_account [example_slot_key] 19426587]"
proof -
  have "snd (generateStorageProof example_prims example_net example_options) =
     CallGetBlock (o_blockNumber example_options) # [CallDebugGetRawHeader ''0x1286d1b''] @
     snd (getStorageAndAccountProof example_prims (example_net (o_rpc example_options))
       (o_account example_options) (o_slot example_options) (o_blockNumber example_options))"
    using generateStorageProof_block_hash_mismatch [of example_prims example_net example_options
        "JString example_hash" example_hash example_header example_rlp Method_debug_getRawHeader
        "[CallDebugGetRawHeader ''0x1286d1b'']" example_hash]
      ex_getBlock(1) ex_resolve_raw ex_keccak(1)
    by (simp add: ex_endpoints ex_header_fields)
  then have p: "snd (generateStorageProof example_prims example_net example_options) =
     [CallGetBlock 19426587, CallDebugGetRawHeader ''0x1286d1b'',
      CallGetProof example_account [example_slot_key] 19426587]"
    by (simp add: ex_endpoints ex_storage)
  have "\<exists>h rlp m t.
      getBlock (example_net (o_rpc example_options_manual)) (o_blockNumber example_options_manual) = Inr h \<and>
      getRlpBlockHeader example_prims (example_net (o_rpc example_options_manual))
        (o_blockNumber example_options_manual) h = (Inr (rlp, m), t) \<and>
      keccak256 example_prims (JString rlp) = Inr example_hash_emitted \<and>
      JString example_hash = hash h \<and> JString example_hash_emitted \<noteq> hash h"
    using ex_getBlock(2) ex_resolve_manual ex_keccak(2) ex_hash_distinct
    by (auto simp: ex_endpoints ex_header_fields)
  then show ?thesis
    using generateStorageProof_block_hash_mismatch [of example_prims example_net
        example_options_manual "JString example_hash" example_hash_emitted] p
    by (simp add: ex_keccak ex_header_fields ex_hash_distinct)
qed

text \<open>
  C4. \<open>generateStorageProof\<close> raises the state root mismatch, with given expected and
  computed values, exactly when the block hash check has passed, the proof fetch for the
  padded slot key has returned and been encoded, the computed value is the Keccak-256
  digest of the first node of the returned account proof, the expected value is the
  state root of the fetched header, and the two differ.
\<close>

theorem generateStorageProof_state_root_mismatch:
  "(fst (generateStorageProof P net opts) = Inl (StateRootMismatchError expected computed) \<longleftrightarrow>
      (\<exists>h rlp m t k rap rsp sv t2 key resp node rest.
         getBlock (net (o_rpc opts)) (o_blockNumber opts) = Inr h \<and>
         getRlpBlockHeader P (net (o_rpc opts)) (o_blockNumber opts) h = (Inr (rlp, m), t) \<and>
         keccak256 P (JString rlp) = Inr k \<and> JString k = hash h \<and>
         getStorageAndAccountProof P (net (o_rpc opts)) (o_account opts) (o_slot opts) (o_blockNumber opts) =
           (Inr (computed, rap, rsp, sv), t2) \<and>
         numberToHex (Some 32) (o_slot opts) = Inr key \<and>
         getProof (net (o_rpc opts)) (o_account opts) [key] (o_blockNumber opts) = Inr resp \<and>
         accountProof resp = node # rest \<and>
         keccak256 P (JString node) = Inr computed \<and>
         expected = stateRoot h \<and> JString computed \<noteq> stateRoot h))"
  (is "?L \<longleftrightarrow> ?R")
proof
  assume a: ?L
  show ?R
  proof (cases rule: gen_outcome [where P = P and net = net and opts = opts])
    case (block_rejected m)
    with a show ?thesis by simp
  next
    case (resolve_throws h e t1)
    with a getRlpBlockHeader_error_pair [OF resolve_throws(2)] show ?thesis by auto
  next
    case (hash_throws h rlp m t1 e)
    with a keccak256_error [OF hash_throws(3)] show ?thesis by auto
  next
    case (hash_differs h rlp m t1 k)
    with a show ?thesis by simp
  next
    case (proof_throws h rlp m t1 k e t2)
    with a getStorageAndAccountProof_error_pair [OF proof_throws(5)] show ?thesis by auto
  next
    case (root_differs h rlp m t1 k root rap rsp sv t2)
    with a have e: "expected = stateRoot h" "computed = root" by simp_all
    from getStorageAndAccountProof_success [OF root_differs(5)] obtain key resp node rest where
      "numberToHex (Some 32) (o_slot opts) = Inr key"
      "getProof (net (o_rpc opts)) (o_account opts) [key] (o_blockNumber opts) = Inr resp"
      "accountProof resp = node # rest" "keccak256 P (JString node) = Inr root"
      by blast
    with root_differs e show ?thesis by blast
  next
    case (format_throws h rlp m t1 k root rap rsp sv t2 e)
    with a toHex_error [OF format_throws(7)] show ?thesis by auto
  next
    case (returns h rlp m t1 k root rap rsp sv t2 bn sl)
    with a show ?thesis by simp
  qed
next
  assume ?R
  then obtain h rlp m t k rap rsp sv t2 where
    "getBlock (net (o_rpc opts)) (o_blockNumber opts) = Inr h"
    "getRlpBlockHeader P (net (o_rpc opts)) (o_blockNumber opts) h = (Inr (rlp, m), t)"
    "keccak256 P (JString rlp) = Inr k" "JString k = hash h"
    "getStorageAndAccountProof P (net (o_rpc opts)) (o_account opts) (o_slot opts) (o_blockNumber opts) =
           (Inr (computed, rap, rsp, sv), t2)"
    "JString computed \<noteq> stateRoot h" "expected = stateRoot h"
    by blast
  from gen_root_differs [where net = net and opts = opts, OF refl refl this(1-6)] this(7)
  show ?L by simp
qed

theorem generateStorageProof_state_root_mismatch_witness:
  "fst (generateStorageProof example_prims example_net example_options_stale) =
     Inl (StateRootMismatchError (JString example_stateRoot) example_storageRoot) \<and>
   keccak256 example_prims (JString example_snode) = Inr example_storageRoot \<and>
   JString example_storageRoot \<noteq> stateRoot example_header"
proof -
  have p: "getProof example_client_stale example_account [example_slot_key] 19426587 =
      Inr (example_proof\<lparr>accountProof := [example_snode]\<rparr>)"
    by (simp add: example_client_stale_def)
  have "\<exists>h rlp m t k rap rsp sv t2 key resp node rest.
         getBlock (example_net (o_rpc example_options_stale)) (o_blockNumber example_options_stale) = Inr h \<and>
         getRlpBlockHeader example_prims (example_net (o_rpc example_options_stale))
           (o_blockNumber example_options_stale) h = (Inr (rlp, m), t) \<and>
         keccak256 example_prims (JString rlp) = Inr k \<and> JString k = hash h \<and>
         getStorageAndAccountProof example_prims (example_net (o_rpc example_options_stale))
           (o_account example_options_stale) (o_slot example_options_stale)
           (o_blockNumber example_options_stale) =
           (Inr (example_storageRoot, rap, rsp, sv), t2) \<and>
         numberToHex (Some 32) (o_slot example_options_stale) = Inr key \<and>
         getProof (example_net (o_rpc example_options_stale)) (o_account example_options_stale) [key]
           (o_blockNumber example_options_stale) = Inr resp \<and>
         accountProof resp = node # rest \<and>
         keccak256 example_prims (JString node) = Inr example_storageRoot \<and>
         JString example_stateRoot = stateRoot h \<and> JString example_storageRoot \<noteq> stateRoot h"
    using ex_getBlock(3) ex_resolve_stale ex_keccak(1,4) ex_storage_stale ex_slot_key p ex_root_distinct
    by (simp add: ex_endpoints ex_header_fields)
  then show ?thesis
    using generateStorageProof_state_root_mismatch [of example_prims example_net
        example_options_stale "JString example_stateRoot" example_storageRoot]
    by (simp add: ex_keccak ex_header_fields ex_root_distinct)
qed

text \<open>
  C5. When the fast path succeeds, the header resolver returns its result unchanged,
  tagged as the raw method. When the request is rejected, with whatever message, or the
  block number cannot even be formatted for it, the resolver returns what the header
  encoder gives for the header already fetched, tagged as the manual method (a throw of
  the encoder is the resolver's throw). In no case does the resolver end in the error of
  the fast path.
\<close>

theorem getRlpBlockHeader_fallback:
  "(toHex (JBigInt bn) = Inr p \<and> debug_getRawHeader c p = Inr raw \<longrightarrow>
      getRlpBlockHeader P c bn h =
        (Inr (raw, Method_debug_getRawHeader), [CallDebugGetRawHeader p])) \<and>
   (toHex (JBigInt bn) = Inr p \<and> debug_getRawHeader c p = Inl m \<longrightarrow>
      getRlpBlockHeader P c bn h = (manualHeader P h, [CallDebugGetRawHeader p])) \<and>
   (toHex (JBigInt bn) = Inl e \<longrightarrow> getRlpBlockHeader P c bn h = (manualHeader P h, [])) \<and>
   fst (getRlpBlockHeader P c bn h) \<noteq> Inl (RpcError m') \<and>
   fst (getRlpBlockHeader P c bn h) \<noteq> Inl IntegerOutOfRangeError"
proof -
  have "fst (getRlpBlockHeader P c bn h) \<noteq> Inl (RpcError m')"
    using getRlpBlockHeader_error [of P c bn h "RpcError m'"] by auto
  moreover have "fst (getRlpBlockHeader P c bn h) \<noteq> Inl IntegerOutOfRangeError"
    using getRlpBlockHeader_error [of P c bn h IntegerOutOfRangeError] by auto
  ultimately show ?thesis
    by (simp add: getRlpBlockHeader_def manualHeader_def bindE_def Let_def del: toHex.simps)
qed

theorem getRlpBlockHeader_fallback_witness:
  "toHex (JBigInt 19426587) = Inr ''0x1286d1b'' \<and>
   debug_getRawHeader example_client ''0x1286d1b'' = Inr example_rlp \<and>
   getRlpBlockHeader example_prims example_client 19426587 example_header =
     (Inr (example_rlp, Method_debug_getRawHeader), [CallDebugGetRawHeader ''0x1286d1b'']) \<and>
   debug_getRawHeader example_client_manual ''0x1286d1b'' =
     Inl ''the method debug_getRawHeader does not exist'' \<and>
   manualHeader example_prims example_header = Inr (example_rlp_emitted, Method_manual) \<and>
   getRlpBlockHeader example_prims example_client_manual 19426587 example_header =
     (Inr (example_rlp_emitted, Method_manual), [CallDebugGetRawHeader ''0x1286d1b'']) \<and>
   toHex (JBigInt (- 1)) = Inl IntegerOutOfRangeError \<and>
   getRlpBlockHeader example_prims example_client (- 1) example_header =
     (Inr (example_rlp_emitted, Method_manual), [])"
proof -
  have t: "toHex (JBigInt 19426587) = Inr ''0x1286d1b''" by (simp add: ex_toHex_number)
  have r: "debug_getRawHeader example_client ''0x1286d1b'' = Inr example_rlp"
    by (simp add: example_client_def)
  have f: "debug_getRawHeader example_client_manual ''0x1286d1b'' =
     Inl ''the method debug_getRawHeader does not exist''"
    by (simp add: example_client_manual_def)
  have n: "toHex (JBigInt (- 1)) = Inl IntegerOutOfRangeError" by (simp add: numberToHex_def)
  have m: "manualHeader example_prims example_header = Inr (example_rlp_emitted, Method_manual)"
    by (simp add: manualHeader_def ex_encode)
  from getRlpBlockHeader_fallback [of 19426587 "''0x1286d1b''" example_client example_rlp
      example_prims example_header] t r
  have 1: "getRlpBlockHeader example_prims example_client 19426587 example_header =
     (Inr (example_rlp, Method_debug_getRawHeader), [CallDebugGetRawHeader ''0x1286d1b''])"
    by blast
  from getRlpBlockHeader_fallback [of 19426587 "''0x1286d1b''" example_client_manual _
      example_prims example_header "''the method debug_getRawHeader does not exist''"] t f m
  have 2: "getRlpBlockHeader example_prims example_client_manual 19426587 example_header =
     (Inr (example_rlp_emitted, Method_manual), [CallDebugGetRawHeader ''0x1286d1b''])"
    by simp
  from getRlpBlockHeader_fallback [of "- 1" _ example_client _
      example_prims example_header _ IntegerOutOfRangeError] n m
  have 3: "getRlpBlockHeader example_prims example_client (- 1) example_header =
     (Inr (example_rlp_emitted, Method_manual), [])"
    by simp
  from t r f n m 1 2 3 show ?thesis by blast
qed

text \<open>
  C6. The specification: every hexadecimal field of a returned result is canonical, lower case
  with \<^verbatim>\<open>0x\<close> and an even number of digits, also for an account given in mixed case.
  The account of the request is copied into the result as it is, and the block number and
  the slot value are written with as many digits as the number has: for the example
  request, with the account in its checksummed form, the result has that same mixed-case
  account, the block number \<^verbatim>\<open>0x1286d1b\<close> of seven digits and the slot value \<^verbatim>\<open>0x1\<close>.
\<close>

theorem result_not_canonical_counterexample:
  "fst (generateStorageProof example_prims example_net example_options) = Inr example_result \<and>
   o_account example_options = ''0x5FbDB2315678afecb367f032d93F642f64180aa3'' \<and>
   p_account example_result = ''0x5FbDB2315678afecb367f032d93F642f64180aa3'' \<and>
   \<not> canonical_hex (p_account example_result) \<and>
   p_blockNumber example_result = ''0x1286d1b'' \<and>
   \<not> canonical_hex (p_blockNumber example_result) \<and>
   p_slotValue example_result = ''0x1'' \<and>
   \<not> canonical_hex (p_slotValue example_result)"
  by (simp add: ex_run)
     (simp add: example_result_def example_options_def example_account_def canonical_hex_def
       lowercase_hex_def lower_hex_def)

text \<open>
  C6, as amended. With primitives that write canonical hexadecimal, in every returned
  result blockHash, stateRoot, slot, rlpAccountProof and rlpStorageProof are canonical
  (lower case, \<^verbatim>\<open>0x\<close>, an even number of digits); blockNumber and slotValue are lower-case
  hexadecimal with \<^verbatim>\<open>0x\<close>, not padded to an even number of digits; account is the
  account of the request and sendRoot the value of the header, both unchanged; and
  rlpBlockHeader is canonical or is the answer of the node to \<^verbatim>\<open>debug_getRawHeader\<close>,
  unchanged.
\<close>

theorem result_hex_format:
  assumes "prims_canonical P" and "fst (generateStorageProof P net opts) = Inr r"
  shows "canonical_value (p_blockHash r) \<and> canonical_value (p_stateRoot r) \<and>
     canonical_hex (p_slot r) \<and>
     canonical_hex (p_rlpAccountProof r) \<and> canonical_hex (p_rlpStorageProof r) \<and>
     lowercase_hex (p_blockNumber r) \<and> lowercase_hex (p_slotValue r) \<and>
     p_account r = o_account opts \<and>
     (\<exists>h. getBlock (net (o_rpc opts)) (o_blockNumber opts) = Inr h \<and>
        p_sendRoot r = copySendRoot h) \<and>
     (canonical_hex (p_rlpBlockHeader r) \<or>
      (\<exists>p. debug_getRawHeader (net (o_rpc opts)) p = Inr (p_rlpBlockHeader r)))"
proof -
  from gen_success [OF assms(2)] obtain h rlp m t1 k root rap rsp sv t2 bn sl where
    h: "getBlock (net (o_rpc opts)) (o_blockNumber opts) = Inr h"
    and x: "getRlpBlockHeader P (net (o_rpc opts)) (o_blockNumber opts) h = (Inr (rlp, m), t1)"
    and k: "keccak256 P (JString rlp) = Inr k" "JString k = hash h"
    and s: "getStorageAndAccountProof P (net (o_rpc opts)) (o_account opts) (o_slot opts)
        (o_blockNumber opts) = (Inr (root, rap, rsp, sv), t2)"
    and root: "JString root = stateRoot h"
    and f: "toHex (number h) = Inr bn" "numberToHex (Some 32) (o_slot opts) = Inr sl"
    and r: "r = \<lparr>p_blockNumber = bn, p_blockHash = hash h, p_stateRoot = stateRoot h,
           p_account = o_account opts, p_slot = sl, p_slotValue = sv, p_rlpBlockHeader = rlp,
           p_rlpAccountProof = rap, p_rlpStorageProof = rsp, p_sendRoot = copySendRoot h\<rparr>"
    by blast
  from getStorageAndAccountProof_success [OF s] obtain key resp node rest s0 srest where
    g: "keccak256 P (JString node) = Inr root"
    "toRlp P (accountProof resp) = Inr rap"
    "toRlp P (sp_proof s0) = Inr rsp" "toHex (JBigInt (sp_value s0)) = Inr sv"
    and "getProof (net (o_rpc opts)) (o_account opts) [key] (o_blockNumber opts) = Inr resp"
    and "accountProof resp = node # rest" "storageProof resp = s0 # srest"
    by blast
  have "canonical_value (hash h)"
    using keccak256_canonical [OF assms(1) k(1)] k(2) [symmetric] by simp
  moreover have "canonical_value (stateRoot h)"
    using keccak256_canonical [OF assms(1) g(1)] root [symmetric] by simp
  moreover have "canonical_hex sl" using numberToHex_32_canonical [OF f(2)] .
  moreover have "canonical_hex rap" "canonical_hex rsp"
    using toRlp_canonical [OF assms(1)] g(2,3) by blast+
  moreover have "lowercase_hex bn" "lowercase_hex sv"
    using toHex_lowercase f(1) g(4) by blast+
  moreover have "canonical_hex rlp \<or> (\<exists>p. debug_getRawHeader (net (o_rpc opts)) p = Inr rlp)"
    using getRlpBlockHeader_source [OF x] toRlp_canonical [OF assms(1)] by blast
  ultimately show ?thesis using h r by simp
qed

theorem result_hex_format_witness:
  "prims_canonical example_prims \<and>
   fst (generateStorageProof example_prims example_net example_options) = Inr example_result \<and>
   canonical_value (p_blockHash example_result) \<and> canonical_value (p_stateRoot example_result) \<and>
   canonical_hex (p_slot example_result) \<and>
   canonical_hex (p_rlpAccountProof example_result) \<and>
   canonical_hex (p_rlpStorageProof example_result) \<and>
   lowercase_hex (p_blockNumber example_result) \<and> lowercase_hex (p_slotValue example_result) \<and>
   p_account example_result = o_account example_options"
proof -
  have g: "fst (generateStorageProof example_prims example_net example_options) = Inr example_result"
    by (simp add: ex_run)
  from result_hex_format [OF ex_prims_canonical g] ex_prims_canonical g show ?thesis by blast
qed

text \<open>
  C7. A result that \<open>generateStorageProof\<close> returns is complete and consistent: its block
  hash is the Keccak-256 digest of its RLP block header and the hash of the fetched
  header; its state root is the digest of the first node of the account proof fetched for
  its account and slot, and the state root of the fetched header; its account is the
  requested one, its slot the requested slot padded to 32 bytes, its block number the
  number of the fetched header; its two proofs are the RLP encodings of the fetched
  account proof and of the first storage proof, and its slot value is that proof's value.
\<close>

theorem generateStorageProof_result_consistent:
  assumes "fst (generateStorageProof P net opts) = Inr r"
  shows "\<exists>h kh resp node rest kr s0 srest.
     getBlock (net (o_rpc opts)) (o_blockNumber opts) = Inr h \<and>
     keccak256 P (JString (p_rlpBlockHeader r)) = Inr kh \<and>
     p_blockHash r = JString kh \<and> hash h = JString kh \<and>
     getProof (net (o_rpc opts)) (p_account r) [p_slot r] (o_blockNumber opts) = Inr resp \<and>
     accountProof resp = node # rest \<and> keccak256 P (JString node) = Inr kr \<and>
     p_stateRoot r = JString kr \<and> stateRoot h = JString kr \<and>
     p_account r = o_account opts \<and>
     numberToHex (Some 32) (o_slot opts) = Inr (p_slot r) \<and>
     toHex (number h) = Inr (p_blockNumber r) \<and>
     toRlp P (accountProof resp) = Inr (p_rlpAccountProof r) \<and>
     storageProof resp = s0 # srest \<and>
     toRlp P (sp_proof s0) = Inr (p_rlpStorageProof r) \<and>
     toHex (JBigInt (sp_value s0)) = Inr (p_slotValue r) \<and>
     p_sendRoot r = copySendRoot h"
proof -
  from gen_success [OF assms] obtain h rlp m t1 k root rap rsp sv t2 bn sl where
    h: "getBlock (net (o_rpc opts)) (o_blockNumber opts) = Inr h"
    and k: "keccak256 P (JString rlp) = Inr k" "JString k = hash h"
    and s: "getStorageAndAccountProof P (net (o_rpc opts)) (o_account opts) (o_slot opts)
        (o_blockNumber opts) = (Inr (root, rap, rsp, sv), t2)"
    and root: "JString root = stateRoot h"
    and f: "toHex (number h) = Inr bn" "numberToHex (Some 32) (o_slot opts) = Inr sl"
    and r: "r = \<lparr>p_blockNumber = bn, p_blockHash = hash h, p_stateRoot = stateRoot h,
           p_account = o_account opts, p_slot = sl, p_slotValue = sv, p_rlpBlockHeader = rlp,
           p_rlpAccountProof = rap, p_rlpStorageProof = rsp, p_sendRoot = copySendRoot h\<rparr>"
    by blast
  from getStorageAndAccountProof_success [OF s] f(2) obtain resp node rest s0 srest where
    "getProof (net (o_rpc opts)) (o_account opts) [sl] (o_blockNumber opts) = Inr resp"
    "accountProof resp = node # rest" "keccak256 P (JString node) = Inr root"
    "toRlp P (accountProof resp) = Inr rap" "storageProof resp = s0 # srest"
    "toRlp P (sp_proof s0) = Inr rsp" "toHex (JBigInt (sp_value s0)) = Inr sv"
    by auto
  with h k root f r show ?thesis by (simp del: toHex.simps)
qed

theorem generateStorageProof_result_consistent_witness:
  "fst (generateStorageProof example_prims example_net example_options) = Inr example_result \<and>
   (\<exists>h kh resp node rest kr.
     getBlock (example_net (o_rpc example_options)) (o_blockNumber example_options) = Inr h \<and>
     keccak256 example_prims (JString (p_rlpBlockHeader example_result)) = Inr kh \<and>
     p_blockHash example_result = JString kh \<and>
     getProof (example_net (o_rpc example_options)) (p_account example_result)
       [p_slot example_result] (o_blockNumber example_options) = Inr resp \<and>
     accountProof resp = node # rest \<and> keccak256 example_prims (JString node) = Inr kr \<and>
     p_stateRoot example_result = JString kr)"
proof -
  have g: "fst (generateStorageProof example_prims example_net example_options) = Inr example_result"
    by (simp add: ex_run)
  from generateStorageProof_result_consistent [OF g] g show ?thesis by blast
qed

text \<open>
  C8. The result has \<open>sendRoot\<close> exactly when the fetched header actually carries a send
  root: the property is there and holds a value (not undefined, null, the empty string or
  zero). It is then the header's value, unchanged. A header without the property gives a
  result without \<open>sendRoot\<close>, not one set to zero or to the empty string.
\<close>

theorem sendRoot_copied_when_truthy:
  assumes "fst (generateStorageProof P net opts) = Inr r"
  shows "\<exists>h. getBlock (net (o_rpc opts)) (o_blockNumber opts) = Inr h \<and>
     (p_sendRoot r \<noteq> None \<longleftrightarrow> (\<exists>v. sendRoot h = Some v \<and> truthy v)) \<and>
     (p_sendRoot r \<noteq> None \<longrightarrow> p_sendRoot r = sendRoot h) \<and>
     (sendRoot h = None \<longrightarrow> p_sendRoot r = None)"
proof -
  from gen_success [OF assms] obtain h where
    "getBlock (net (o_rpc opts)) (o_blockNumber opts) = Inr h" "p_sendRoot r = copySendRoot h"
    by auto
  then show ?thesis by (auto simp: copySendRoot_def split: option.splits if_splits)
qed

theorem sendRoot_copied_when_truthy_witness:
  "fst (generateStorageProof example_prims (example_net_sendRoot (JString example_hash)) example_options) =
     Inr (example_result\<lparr>p_sendRoot := Some (JString example_hash)\<rparr>) \<and>
   (\<exists>h. getBlock (example_net_sendRoot (JString example_hash) (o_rpc example_options))
         (o_blockNumber example_options) = Inr h \<and>
        sendRoot h = Some (JString example_hash) \<and> truthy (JString example_hash)) \<and>
   fst (generateStorageProof example_prims example_net example_options) = Inr example_result \<and>
   sendRoot example_header = None \<and> p_sendRoot example_result = None"
proof -
  have g: "fst (generateStorageProof example_prims (example_net_sendRoot (JString example_hash))
      example_options) = Inr (example_result\<lparr>p_sendRoot := Some (JString example_hash)\<rparr>)"
    by (simp add: ex_run_sendRoot example_hash_def)
  have "p_sendRoot (example_result\<lparr>p_sendRoot := Some (JString example_hash)\<rparr>) \<noteq> None" by simp
  with sendRoot_copied_when_truthy [OF g] g
  have 1: "\<exists>h. getBlock (example_net_sendRoot (JString example_hash) (o_rpc example_options))
         (o_blockNumber example_options) = Inr h \<and>
        sendRoot h = Some (JString example_hash) \<and> truthy (JString example_hash)"
    by auto
  have g': "fst (generateStorageProof example_prims example_net example_options) = Inr example_result"
    by (simp add: ex_run)
  from sendRoot_copied_when_truthy [OF g'] have 2: "p_sendRoot example_result = None"
    by (auto simp: ex_endpoints ex_getBlock ex_header_fields)
  from g 1 g' 2 show ?thesis by (simp add: ex_header_fields)
qed

text \<open>
  C9. In a result that \<open>generateStorageProof\<close> returns, the slot is the requested slot
  written as 32 bytes in big-endian order: \<^verbatim>\<open>0x\<close>, then its hexadecimal digits padded
  with zeros on the left to 64 (so the requested slot lies between 0 and \<open>2 ^ 256 - 1\<close>,
  and slot 0 gives 64 zeros). The last request the call sent is the proof request, for
  the requested account and block, and its one storage key is this same text. Whether
  the call returns or not, every proof request it sends is for the requested account and
  block and has this padded slot as its one storage key.
\<close>

theorem generateStorageProof_slot_padded:
  "(fst (generateStorageProof P net opts) = Inr r \<longrightarrow>
     0 \<le> o_slot opts \<and> o_slot opts < 2 ^ 256 \<and>
     p_slot r = ''0x'' @ replicate (64 - length (hex_digits (nat (o_slot opts)))) CHR ''0''
                   @ hex_digits (nat (o_slot opts)) \<and>
     length (p_slot r) = 66 \<and> canonical_hex (p_slot r) \<and>
     (\<exists>bs. hex_bytes (p_slot r) = Some bs \<and> length bs = 32 \<and> int (be_value bs) = o_slot opts) \<and>
     (o_slot opts = 0 \<longrightarrow> p_slot r = ''0x'' @ replicate 64 CHR ''0'') \<and>
     (\<exists>t1. snd (generateStorageProof P net opts) =
        CallGetBlock (o_blockNumber opts) # t1 @
        [CallGetProof (o_account opts) [p_slot r] (o_blockNumber opts)])) \<and>
   (CallGetProof a ks n \<in> set (snd (generateStorageProof P net opts)) \<longrightarrow>
     a = o_account opts \<and> n = o_blockNumber opts \<and>
     0 \<le> o_slot opts \<and> o_slot opts < 2 ^ 256 \<and>
     ks = [''0x'' @ replicate (64 - length (hex_digits (nat (o_slot opts)))) CHR ''0''
                   @ hex_digits (nat (o_slot opts))])"
proof (intro conjI impI)
  assume "CallGetProof a ks n \<in> set (snd (generateStorageProof P net opts))"
  from gen_proof_request [OF this] obtain k where
    k: "a = o_account opts" "n = o_blockNumber opts"
    "numberToHex (Some 32) (o_slot opts) = Inr k" "ks = [k]"
    by blast
  from numberToHex_32_range [OF k(3)] have range: "0 \<le> o_slot opts" "o_slot opts < 2 ^ 256"
    by simp_all
  from numberToHex_32(1) [OF range] k(3,4)
  have "ks = [''0x'' @ replicate (64 - length (hex_digits (nat (o_slot opts)))) CHR ''0''
                   @ hex_digits (nat (o_slot opts))]"
    by simp
  with k range show "a = o_account opts" "n = o_blockNumber opts"
    "0 \<le> o_slot opts" "o_slot opts < 2 ^ 256"
    "ks = [''0x'' @ replicate (64 - length (hex_digits (nat (o_slot opts)))) CHR ''0''
                   @ hex_digits (nat (o_slot opts))]"
    by simp_all
qed (use gen_slot_padded [of P net opts r] in blast)+

theorem generateStorageProof_slot_padded_witness:
  "fst (generateStorageProof example_prims example_net example_options) = Inr example_result \<and>
   o_slot example_options = 0 \<and>
   p_slot example_result = ''0x'' @ replicate 64 CHR ''0'' \<and>
   last (snd (generateStorageProof example_prims example_net example_options)) =
     CallGetProof example_account [''0x'' @ replicate 64 CHR ''0''] 19426587"
proof -
  have g: "fst (generateStorageProof example_prims example_net example_options) = Inr example_result"
    by (simp add: ex_run)
  from generateStorageProof_slot_padded [of example_prims example_net example_options
      example_result] g
  have th: "(o_slot example_options = 0 \<longrightarrow> p_slot example_result = ''0x'' @ replicate 64 CHR ''0'') \<and>
     (\<exists>t1. snd (generateStorageProof example_prims example_net example_options) =
        CallGetBlock (o_blockNumber example_options) # t1 @
        [CallGetProof (o_account example_options) [p_slot example_result]
           (o_blockNumber example_options)])"
    by blast
  from th have "o_slot example_options = 0 \<longrightarrow> p_slot example_result = ''0x'' @ replicate 64 CHR ''0''"
    by blast
  then have z: "p_slot example_result = ''0x'' @ replicate 64 CHR ''0''"
    by (simp add: ex_endpoints)
  from th obtain t1 where "snd (generateStorageProof example_prims example_net example_options) =
        CallGetBlock (o_blockNumber example_options) # t1 @
        [CallGetProof (o_account example_options) [p_slot example_result]
           (o_blockNumber example_options)]"
    by blast
  then have "last (snd (generateStorageProof example_prims example_net example_options)) =
     CallGetProof example_account [p_slot example_result] 19426587"
    by (simp add: ex_endpoints)
  with g z show ?thesis by (simp add: ex_endpoints)
qed



end
